theory Spec2Isabelle
  imports Main "HOL-Library.Char_ord" "HOL-Library.List_Lexorder"
begin

section \<open>Data model\<close>

text \<open>
  The repository holds three successive versions of one Go file:
  \<^item> \<^verbatim>\<open>src/unnamed/part_000\<close>: \<open>Do\<close> fills an \<open>http.Request\<close> literal by hand;
  \<^item> \<^verbatim>\<open>src/contextIO.go\<close>: \<open>Do\<close> goes through \<open>http.NewRequest\<close> and parses the body;
  \<^item> \<^verbatim>\<open>src/unnamed/part_001\<close>: \<open>NewRequest\<close>, \<open>Sign\<close>, \<open>AttachFile\<close> and a thin \<open>Do\<close>.
  Each function below carries the name of its file as a suffix.

  A Go panic and a Go error are both values of \<open>error\<close>. A Go result pair \<open>(x, err)\<close> is
  \<open>Inl err\<close> when the source returns a non-nil error and \<open>Inr x\<close> otherwise; the two places
  where the source returns a value together with a possibly non-nil error
  (\<open>return req, err\<close> in \<open>NewRequest\<close>, \<open>return json, err\<close> in \<open>DoJSON\<close>) keep the pair.
\<close>

datatype panic = SliceBoundsOutOfRange | NilPointerDereference

datatype error = Panic panic | Err string

text \<open>\<open>url.Values\<close> is \<open>map[string][]string\<close>; the association list fixes one iteration order.
  The nil map and the empty map are both \<open>[]\<close>.\<close>

type_synonym "values" = "(string \<times> string list) list"

text \<open>\<open>http.Header\<close>, a map from header names to value lists.\<close>

type_synonym header = "string \<rightharpoonup> string list"

text \<open>The fields of \<open>url.URL\<close> that the code or the parser touch.\<close>

record url =
  Scheme :: string
  Opaque :: string
  Host :: string
  Path :: string
  RawQuery :: string
  Fragment :: string

text \<open>An \<open>io.Reader\<close> is the sequence of its reads: each yields bytes or fails.\<close>

datatype chunk = Data string | Fail error

type_synonym reader = "chunk list"

text \<open>A part of a multipart body, as \<open>multipart.Writer\<close> is asked to write it: a file part
  (field name, file name, content) or a plain field (name, value).\<close>

datatype part = FormFile string string string | FormField string string

text \<open>A request body: absent, a reader, or the buffer a \<open>multipart.Writer\<close> with the given
  boundary has written the listed parts to.\<close>

datatype body = NoBody | Stream reader | Multipart string "part list"

record http_Request =
  Method :: string
  URL :: url
  Header :: header
  Body :: body
  RequestHost :: string
  Form :: "values"
  PostForm :: "values"
  MultipartForm :: "part list option"

record http_Response =
  StatusCode :: nat
  ResponseBody :: reader

record Credentials =
  Token :: string
  Secret :: string

text \<open>\<open>oauth.Client\<close>; the code fills in \<open>Credentials\<close> only.\<close>

record Client =
  Credentials :: Credentials

record ContextIO =
  key :: string
  secret :: string
  client :: Client

text \<open>The wrapper type of \<^verbatim>\<open>part_001\<close>; \<open>Request\<close> is its embedded \<open>*http.Request\<close>.\<close>

record Request =
  Request :: http_Request
  C :: ContextIO
  Query :: string
  Attachment :: string

text \<open>What a call leaves behind outside its return value.\<close>

datatype event =
    SignatureComputed string url "values"
  | Dispatched http_Request
  | FileOpened string
  | ResponseBodyClosed

section \<open>The process and the libraries the code calls\<close>

text \<open>
  The code runs against the flag \<open>apiHost\<close> and against packages that are not part of the
  repository. They are parameters of the model, so that every theorem holds whatever they
  compute:
  \<^item> \<open>http_NewRequest method url body\<close>: \<open>http.NewRequest\<close>;
  \<^item> \<open>url_ParseQuery\<close>: \<open>url.ParseQuery\<close>, which returns the values parsed so far and the
    first error;
  \<^item> \<open>oauth_authorizationHeader client credentials method url form\<close>: the header value
    that \<open>oauth.Client.SetAuthorizationHeader\<close> computes (at the nonce and time of the call);
  \<^item> \<open>http_DefaultClient_Do\<close>: the round trip;
  \<^item> \<open>os_Open\<close>: the file system;
  \<^item> \<open>randomBoundary\<close>: the boundary \<open>multipart.NewWriter\<close> draws;
  \<^item> \<open>http_ParseMultipartForm\<close>: \<open>Request.ParseMultipartForm\<close>, which may read the
    request's body and assigns the request's \<open>Form\<close>, \<open>PostForm\<close> and \<open>MultipartForm\<close>; it
    returns the body as the call leaves it and the three new values.
\<close>

record env =
  apiHost :: string
  http_NewRequest :: "string \<Rightarrow> string \<Rightarrow> body \<Rightarrow> error + http_Request"
  url_ParseQuery :: "string \<Rightarrow> values \<times> error option"
  oauth_authorizationHeader ::
    "Client \<Rightarrow> Credentials option \<Rightarrow> string \<Rightarrow> url \<Rightarrow> values \<Rightarrow> error + string"
  http_DefaultClient_Do :: "http_Request \<Rightarrow> error + http_Response"
  os_Open :: "string \<Rightarrow> error + reader"
  randomBoundary :: string
  http_ParseMultipartForm ::
    "http_Request \<Rightarrow> nat \<Rightarrow> body \<times> values \<times> values \<times> part list option"

section \<open>Library functions with a fixed meaning\<close>

text \<open>Go's \<open>s[lo:hi]\<close> on a string: a panic unless \<open>lo \<le> hi \<le> len(s)\<close>.\<close>

definition go_slice :: "string \<Rightarrow> nat \<Rightarrow> nat \<Rightarrow> error + string" where
  "go_slice s lo hi =
     (if lo \<le> hi \<and> hi \<le> length s then Inr (take (hi - lo) (drop lo s))
      else Inl (Panic SliceBoundsOutOfRange))"

text \<open>\<open>Header.Set\<close>: replaces the values of the key. The code only uses keys that are
  already in canonical form.\<close>

definition Header_Set :: "header \<Rightarrow> string \<Rightarrow> string \<Rightarrow> header" where
  "Header_Set h k v = h(k \<mapsto> [v])"

text \<open>\<open>oauth.Client.SetAuthorizationHeader\<close>: computes the value and, on success, sets the
  \<open>Authorization\<close> header.\<close>

definition SetAuthorizationHeader ::
  "env \<Rightarrow> Client \<Rightarrow> header \<Rightarrow> Credentials option \<Rightarrow> string \<Rightarrow> url \<Rightarrow> values
     \<Rightarrow> (error + header) \<times> event list" where
  "SetAuthorizationHeader E cl h creds method u form =
     (case oauth_authorizationHeader E cl creds method u form of
        Inl e \<Rightarrow> (Inl e, [SignatureComputed method u form])
      | Inr v \<Rightarrow> (Inr (Header_Set h ''Authorization'' v), [SignatureComputed method u form]))"

text \<open>\<open>url.QueryEscape\<close>: letters, digits and \<open>-_.~\<close> stay, a space becomes \<open>+\<close>, every
  other byte becomes \<open>%XX\<close> in upper-case hexadecimal.\<close>

definition upperhex :: "nat \<Rightarrow> char" where
  "upperhex n = ''0123456789ABCDEF'' ! (n mod 16)"

definition unreserved :: "char \<Rightarrow> bool" where
  "unreserved c =
     (let n = (of_char c :: nat)
      in (97 \<le> n \<and> n \<le> 122) \<or> (65 \<le> n \<and> n \<le> 90) \<or> (48 \<le> n \<and> n \<le> 57)
         \<or> c = CHR ''-'' \<or> c = CHR ''_'' \<or> c = CHR ''.'' \<or> c = CHR ''~'')"

fun QueryEscape :: "string \<Rightarrow> string" where
  "QueryEscape [] = []"
| "QueryEscape (c # cs) =
     (if unreserved c then c # QueryEscape cs
      else if c = CHR '' '' then CHR ''+'' # QueryEscape cs
      else CHR ''%'' # upperhex (of_char c div 16) # upperhex (of_char c) # QueryEscape cs)"

text \<open>\<open>Values.Encode\<close>: keys in sorted order, \<open>key=value\<close> for each value, joined by \<open>&\<close>.\<close>

fun join_amp :: "string list \<Rightarrow> string" where
  "join_amp [] = []"
| "join_amp [x] = x"
| "join_amp (x # y # ys) = x @ ''&'' @ join_amp (y # ys)"

definition lookup_values :: "values \<Rightarrow> string \<Rightarrow> string list" where
  "lookup_values vs k = (case map_of vs k of None \<Rightarrow> [] | Some xs \<Rightarrow> xs)"

definition Encode :: "values \<Rightarrow> string" where
  "Encode vs =
     join_amp (concat (map (\<lambda>k. map (\<lambda>v. QueryEscape k @ ''='' @ QueryEscape v)
                                   (lookup_values vs k))
                           (sort (remdups (map fst vs)))))"

text \<open>\<open>ioutil.ReadAll\<close> and the reading half of \<open>io.Copy\<close>: the bytes read up to the end or
  up to the first failing read, and that failure.\<close>

fun ReadAll :: "reader \<Rightarrow> string \<times> error option" where
  "ReadAll [] = ([], None)"
| "ReadAll (Data bs # rest) = (case ReadAll rest of (out, e) \<Rightarrow> (bs @ out, e))"
| "ReadAll (Fail e # rest) = ([], Some e)"

section \<open>\<^verbatim>\<open>part_000\<close>: the request literal\<close>

definition NewContextIO :: "string \<Rightarrow> string \<Rightarrow> ContextIO" where
  "NewContextIO k s =
     \<lparr>key = k, secret = s, client = \<lparr>Credentials = \<lparr>Token = k, Secret = s\<rparr>\<rparr>\<rparr>"

text \<open>Lines 50 to 68 of \<open>Do\<close>: the request as it is handed to the HTTP client. The body is
  the \<open>io.Reader\<close> of the caller, which \<open>Do\<close> wraps with \<open>NopCloser\<close> without reading it.\<close>

definition prepare_part000 ::
  "env \<Rightarrow> ContextIO \<Rightarrow> string \<Rightarrow> string \<Rightarrow> values \<Rightarrow> body
     \<Rightarrow> (error + http_Request) \<times> event list" where
  "prepare_part000 E c method q params b =
     (let req = \<lparr>Method = method,
                 URL = \<lparr>Scheme = ''https'', Opaque = q, Host = apiHost E, Path = [],
                        RawQuery = Encode params, Fragment = []\<rparr>,
                 Header = [''User-Agent'' \<mapsto> [''GoContextIO Simple Library'']],
                 Body = b,
                 RequestHost = apiHost E,
                 Form = [], PostForm = [], MultipartForm = None\<rparr>
      in case SetAuthorizationHeader E (client c) (Header req) None (Method req) (URL req) [] of
           (Inl e, t) \<Rightarrow> (Inl e, t)
         | (Inr h, t) \<Rightarrow> (Inr (req\<lparr>Header := h\<rparr>), t))"

definition Do_part000 ::
  "env \<Rightarrow> ContextIO \<Rightarrow> string \<Rightarrow> string \<Rightarrow> values \<Rightarrow> body
     \<Rightarrow> (error + http_Response) \<times> event list" where
  "Do_part000 E c method q params b =
     (case prepare_part000 E c method q params b of
        (Inl e, t) \<Rightarrow> (Inl e, t)
      | (Inr req, t) \<Rightarrow> (http_DefaultClient_Do E req, t @ [Dispatched req]))"

definition DoJSON_part000 ::
  "env \<Rightarrow> ContextIO \<Rightarrow> string \<Rightarrow> string \<Rightarrow> values \<Rightarrow> body
     \<Rightarrow> (error + string \<times> error option) \<times> event list" where
  "DoJSON_part000 E c method q params b =
     (case Do_part000 E c method q params b of
        (Inl e, t) \<Rightarrow> (Inl e, t)
      | (Inr response, t) \<Rightarrow>
          (Inr (ReadAll (ResponseBody response)), t @ [ResponseBodyClosed]))"

section \<open>\<^verbatim>\<open>contextIO.go\<close>: \<open>http.NewRequest\<close> and the parsed body\<close>

text \<open>\<open>if q[0:1] != "/" { q = "/" + q }\<close>, the first statement of \<open>Do\<close> here and of
  \<open>NewRequest\<close> in \<^verbatim>\<open>part_001\<close>.\<close>

definition slash_prefix :: "string \<Rightarrow> error + string" where
  "slash_prefix q =
     (case go_slice q 0 1 of
        Inl e \<Rightarrow> Inl e
      | Inr s \<Rightarrow> Inr (if s \<noteq> ''/'' then ''/'' @ q else q))"

definition mutating :: "string \<Rightarrow> bool" where
  "mutating method = (method = ''PUT'' \<or> method = ''POST'' \<or> method = ''DELETE'')"

text \<open>
  Lines 49 to 70 of \<open>Do\<close>. The body is a \<open>*string\<close>: \<open>None\<close> is the nil pointer, whose
  dereference panics. The error of \<open>http.NewRequest\<close> is discarded, so a failure there
  leaves \<open>req\<close> nil and \<open>req.URL.Opaque = q\<close> panics. The parameter \<open>params\<close> is not used.
\<close>

definition prepare_contextIO ::
  "env \<Rightarrow> ContextIO \<Rightarrow> string \<Rightarrow> string \<Rightarrow> values \<Rightarrow> string option
     \<Rightarrow> (error + http_Request) \<times> event list" where
  "prepare_contextIO E c method q0 params body =
     (case slash_prefix q0 of
        Inl e \<Rightarrow> (Inl e, [])
      | Inr q \<Rightarrow>
         (case body of
            None \<Rightarrow> (Inl (Panic NilPointerDereference), [])
          | Some b \<Rightarrow>
             (case http_NewRequest E method (''https://'' @ apiHost E @ q) (Stream [Data b]) of
                Inl _ \<Rightarrow> (Inl (Panic NilPointerDereference), [])
              | Inr req0 \<Rightarrow>
                 (let req1 = req0\<lparr>URL := (URL req0)\<lparr>Opaque := q\<rparr>\<rparr>;
                      req2 = req1\<lparr>Header := Header_Set (Header req1) ''User-Agent''
                                                ''GoContextIO Simple Library v. 0.1''\<rparr>
                  in if mutating method then
                       (let req3 = req2\<lparr>Header := Header_Set (Header req2) ''Content-Type''
                                                     ''application/x-www-form-urlencoded''\<rparr>
                        in case url_ParseQuery E b of
                             (v, Some e) \<Rightarrow> (Inl e, [])
                           | (v, None) \<Rightarrow>
                              (case SetAuthorizationHeader E (client c) (Header req3) None
                                      (Method req3) (URL req3) v of
                                 (Inl e, t) \<Rightarrow> (Inl e, t)
                               | (Inr h, t) \<Rightarrow> (Inr (req3\<lparr>Header := h\<rparr>), t)))
                     else
                       (case SetAuthorizationHeader E (client c) (Header req2) None
                               (Method req2) (URL req2) [] of
                          (Inl e, t) \<Rightarrow> (Inl e, t)
                        | (Inr h, t) \<Rightarrow> (Inr (req2\<lparr>Header := h\<rparr>), t))))))"

definition Do_contextIO ::
  "env \<Rightarrow> ContextIO \<Rightarrow> string \<Rightarrow> string \<Rightarrow> values \<Rightarrow> string option
     \<Rightarrow> (error + http_Response) \<times> event list" where
  "Do_contextIO E c method q params body =
     (case prepare_contextIO E c method q params body of
        (Inl e, t) \<Rightarrow> (Inl e, t)
      | (Inr req, t) \<Rightarrow> (http_DefaultClient_Do E req, t @ [Dispatched req]))"

definition DoJSON_contextIO ::
  "env \<Rightarrow> ContextIO \<Rightarrow> string \<Rightarrow> string \<Rightarrow> values \<Rightarrow> string option
     \<Rightarrow> (error + string \<times> error option) \<times> event list" where
  "DoJSON_contextIO E c method q params body =
     (case Do_contextIO E c method q params body of
        (Inl e, t) \<Rightarrow> (Inl e, t)
      | (Inr response, t) \<Rightarrow>
          (Inr (ReadAll (ResponseBody response)), t @ [ResponseBodyClosed]))"

section \<open>\<^verbatim>\<open>part_001\<close>: the request wrapper and the attachment\<close>

definition defaultMaxMemory :: nat where
  "defaultMaxMemory = push_bit 21 32"

definition SetUserAgent :: "Request \<Rightarrow> string \<Rightarrow> Request" where
  "SetUserAgent r ua =
     r\<lparr>Request := (Request r)\<lparr>Header := Header_Set (Header (Request r)) ''User-Agent'' ua\<rparr>\<rparr>"

text \<open>\<open>Sign\<close> returns the error of \<open>SetAuthorizationHeader\<close>; the request is the one it was
  given when that error is not nil.\<close>

definition Sign :: "env \<Rightarrow> Request \<Rightarrow> (Request \<times> error option) \<times> event list" where
  "Sign E r =
     (case SetAuthorizationHeader E (client (C r)) (Header (Request r)) None
             (Method (Request r)) (URL (Request r)) (PostForm (Request r)) of
        (Inl e, t) \<Rightarrow> ((r, Some e), t)
      | (Inr h, t) \<Rightarrow> ((r\<lparr>Request := (Request r)\<lparr>Header := h\<rparr>\<rparr>, None), t))"

text \<open>\<open>NewRequest\<close>. \<open>Inl\<close> is a panic or \<open>return nil, err\<close>; \<open>Inr\<close> is the final
  \<open>return req, err\<close>. The parameter \<open>postParams\<close> is not used.\<close>

definition NewRequest ::
  "env \<Rightarrow> ContextIO \<Rightarrow> string \<Rightarrow> string \<Rightarrow> values \<Rightarrow> values
     \<Rightarrow> (error + Request \<times> error option) \<times> event list" where
  "NewRequest E c method q0 queryParams postParams =
     (case slash_prefix q0 of
        Inl e \<Rightarrow> (Inl e, [])
      | Inr q \<Rightarrow>
         (let query = apiHost E @ q;
              query = (if length queryParams > 0 then query @ ''?'' @ Encode queryParams
                       else query)
          in case http_NewRequest E method (''https://'' @ query) NoBody of
               Inl e \<Rightarrow> (Inl e, [])
             | Inr hr \<Rightarrow>
                (let req = \<lparr>Request = hr, C = c, Query = q, Attachment = []\<rparr>;
                     req = req\<lparr>Request := (Request req)\<lparr>URL := (URL (Request req))\<lparr>Opaque := q\<rparr>\<rparr>\<rparr>;
                     req = SetUserAgent req ''GoContextIO Simple Library v. 0.1''
                 in case Sign E req of (res, t) \<Rightarrow> (Inr res, t))))"

definition Do_part001 ::
  "env \<Rightarrow> ContextIO \<Rightarrow> string \<Rightarrow> string \<Rightarrow> values \<Rightarrow> values
     \<Rightarrow> (error + http_Response) \<times> event list" where
  "Do_part001 E c method q queryParams postParams =
     (case NewRequest E c method q queryParams postParams of
        (Inl e, t) \<Rightarrow> (Inl e, t)
      | (Inr (req, Some e), t) \<Rightarrow> (Inl e, t)
      | (Inr (req, None), t) \<Rightarrow>
          (http_DefaultClient_Do E (Request req), t @ [Dispatched (Request req)]))"

text \<open>\<open>DoJSON\<close> of this version takes a fifth parameter \<open>body\<close>, which it does not use.\<close>

definition DoJSON_part001 ::
  "env \<Rightarrow> ContextIO \<Rightarrow> string \<Rightarrow> string \<Rightarrow> values \<Rightarrow> values \<Rightarrow> string option
     \<Rightarrow> (error + string \<times> error option) \<times> event list" where
  "DoJSON_part001 E c method q queryParams postParams body =
     (case Do_part001 E c method q queryParams postParams of
        (Inl e, t) \<Rightarrow> (Inl e, t)
      | (Inr response, t) \<Rightarrow>
          (Inr (ReadAll (ResponseBody response)), t @ [ResponseBodyClosed]))"

text \<open>\<open>filepath.Base\<close> (Unix): the last element of the path, after trailing slashes are
  removed; \<open>.\<close> for the empty path and \<open>/\<close> for a path of slashes only.\<close>

definition filepath_Base :: "string \<Rightarrow> string" where
  "filepath_Base p =
     (if p = [] then ''.''
      else (let stripped = rev (dropWhile (\<lambda>x. x = CHR ''/'') (rev p));
                element = rev (takeWhile (\<lambda>x. x \<noteq> CHR ''/'') (rev stripped))
            in if element = [] then ''/'' else element))"

text \<open>
  \<open>multipart.Writer\<close> over a \<open>bytes.Buffer\<close>, as the sequence of parts it has been asked to
  write. Writing to a \<open>bytes.Buffer\<close> does not fail, so the operations return \<open>Inr\<close>; the
  result type keeps the error that the caller checks.
\<close>

record Writer =
  boundary :: string
  written :: "part list"
  closed :: bool

definition NewWriter :: "string \<Rightarrow> Writer" where
  "NewWriter b = \<lparr>boundary = b, written = [], closed = False\<rparr>"

definition CreateFormFile :: "Writer \<Rightarrow> string \<Rightarrow> string \<Rightarrow> error + Writer" where
  "CreateFormFile w fieldname filename =
     Inr (w\<lparr>written := written w @ [FormFile fieldname filename []]\<rparr>)"

definition WriteField :: "Writer \<Rightarrow> string \<Rightarrow> string \<Rightarrow> error + Writer" where
  "WriteField w fieldname v = Inr (w\<lparr>written := written w @ [FormField fieldname v]\<rparr>)"

definition Close :: "Writer \<Rightarrow> error + Writer" where
  "Close w = Inr (w\<lparr>closed := True\<rparr>)"

definition FormDataContentType :: "Writer \<Rightarrow> string" where
  "FormDataContentType w = ''multipart/form-data; boundary='' @ boundary w"

fun append_content :: "part \<Rightarrow> string \<Rightarrow> part" where
  "append_content (FormFile n f content) bs = FormFile n f (content @ bs)"
| "append_content (FormField n v) bs = FormField n (v @ bs)"

text \<open>\<open>io.Copy(part, f)\<close>, where \<open>part\<close> is the part the writer created last: what can be
  read from \<open>f\<close> goes into that part; the read error, if any, is returned.\<close>

definition io_Copy :: "Writer \<Rightarrow> reader \<Rightarrow> Writer \<times> error option" where
  "io_Copy w src =
     (case ReadAll src of
        (bs, e) \<Rightarrow>
          (w\<lparr>written := (case rev (written w) of
                            [] \<Rightarrow> []
                          | p # ps \<Rightarrow> rev ps @ [append_content p bs])\<rparr>, e))"

text \<open>The two nested \<open>range\<close> loops of \<open>AttachFile\<close> over \<open>req.PostForm\<close>.\<close>

fun write_vals :: "Writer \<Rightarrow> string \<Rightarrow> string list \<Rightarrow> error + Writer" where
  "write_vals w k [] = Inr w"
| "write_vals w k (val # valSlice) =
     (case WriteField w k val of
        Inl e \<Rightarrow> Inl e
      | Inr w' \<Rightarrow> write_vals w' k valSlice)"

fun write_form :: "Writer \<Rightarrow> values \<Rightarrow> error + Writer" where
  "write_form w [] = Inr w"
| "write_form w ((k, valSlice) # rest) =
     (case write_vals w k valSlice of
        Inl e \<Rightarrow> Inl e
      | Inr w' \<Rightarrow> write_form w' rest)"

text \<open>
  \<open>AttachFile\<close> changes the request it is given in place and returns an error; the model
  returns the changed request when that error is nil. The error of \<open>io.Copy\<close> is
  overwritten before it is looked at, and the error of \<open>ParseMultipartForm\<close> is dropped.
  \<open>ParseMultipartForm\<close> is called on the request that already has the new body and still
  has its old \<open>Content-Type\<close>; the body of the result is the one that call leaves behind.
\<close>

definition AttachFile ::
  "env \<Rightarrow> ContextIO \<Rightarrow> http_Request \<Rightarrow> string \<Rightarrow> string
     \<Rightarrow> (error + http_Request) \<times> event list" where
  "AttachFile E c req fieldName fileName =
     (case os_Open E fileName of
        Inl e \<Rightarrow> (Inl e, [FileOpened fileName])
      | Inr f \<Rightarrow>
         (case CreateFormFile (NewWriter (randomBoundary E)) fieldName
                 (filepath_Base fileName) of
            Inl e \<Rightarrow> (Inl e, [FileOpened fileName])
          | Inr writer1 \<Rightarrow>
             (case io_Copy writer1 f of
                (writer2, _) \<Rightarrow>
                  (case write_form writer2 (PostForm req) of
                     Inl e \<Rightarrow> (Inl e, [FileOpened fileName])
                   | Inr writer3 \<Rightarrow>
                      (case Close writer3 of
                         Inl e \<Rightarrow> (Inl e, [FileOpened fileName])
                       | Inr writer \<Rightarrow>
                          (let req1 = req\<lparr>Body := Multipart (boundary writer) (written writer)\<rparr>
                           in case http_ParseMultipartForm E req1 defaultMaxMemory of
                                (b', f', pf, mf) \<Rightarrow>
                                  (let req2 = req1\<lparr>Body := b', Form := f', PostForm := pf,
                                                   MultipartForm := mf\<rparr>;
                                       req3 = req2\<lparr>Header := Header_Set (Header req2)
                                                       ''Content-Type''
                                                       (FormDataContentType writer)\<rparr>
                                   in (Inr req3, [FileOpened fileName]))))))))"

section \<open>A reference environment\<close>

text \<open>
  Stand-ins for the process and the libraries, used to run the model on examples. The
  host is the default of the flag. The parsers follow \<open>net/url\<close> and \<open>net/http\<close> on
  absolute URLs with a lower-case scheme and a plain host name; the signature is the text
  that would be signed, not its HMAC; the network answers every request but those to
  \<open>unreachable.invalid\<close>; the file system holds one file. \<open>ParseMultipartForm\<close> follows
  \<open>net/http\<close> on the requests \<open>AttachFile\<close> gives it, whose body is the buffer just written.
\<close>

definition cut :: "char \<Rightarrow> string \<Rightarrow> string \<times> string" where
  "cut c s = (takeWhile (\<lambda>x. x \<noteq> c) s, drop 1 (dropWhile (\<lambda>x. x \<noteq> c) s))"

definition ishex :: "char \<Rightarrow> bool" where
  "ishex c =
     (let n = (of_char c :: nat)
      in (48 \<le> n \<and> n \<le> 57) \<or> (97 \<le> n \<and> n \<le> 102) \<or> (65 \<le> n \<and> n \<le> 70))"

definition unhex :: "char \<Rightarrow> nat" where
  "unhex c =
     (let n = (of_char c :: nat)
      in if 48 \<le> n \<and> n \<le> 57 then n - 48
         else if 97 \<le> n \<and> n \<le> 102 then n - 97 + 10
         else n - 65 + 10)"

text \<open>\<open>unescape\<close> of \<open>net/url\<close>: \<open>%XX\<close> is decoded, and with \<open>inquery\<close> (query components) a
  \<open>+\<close> is a space; \<open>None\<close> is the escape error.\<close>

fun unescape :: "bool \<Rightarrow> string \<Rightarrow> string option" where
  "unescape inquery [] = Some []"
| "unescape inquery [c] =
     (if c = CHR ''%'' then None
      else if c = CHR ''+'' \<and> inquery then Some '' ''
      else Some [c])"
| "unescape inquery [c, d] =
     (if c = CHR ''%'' then None
      else map_option ((#) (if c = CHR ''+'' \<and> inquery then CHR '' '' else c))
             (unescape inquery [d]))"
| "unescape inquery (c # h1 # h2 # rest) =
     (if c = CHR ''%'' then
        (if ishex h1 \<and> ishex h2
         then map_option ((#) (char_of (unhex h1 * 16 + unhex h2))) (unescape inquery rest)
         else None)
      else map_option ((#) (if c = CHR ''+'' \<and> inquery then CHR '' '' else c))
             (unescape inquery (h1 # h2 # rest)))"

fun split_on :: "char \<Rightarrow> string \<Rightarrow> string \<Rightarrow> string list" where
  "split_on c [] acc = [rev acc]"
| "split_on c (x # xs) acc =
     (if x = c then rev acc # split_on c xs [] else split_on c xs (x # acc))"

text \<open>\<open>m[key] = append(m[key], value)\<close>. A new key goes to its place in key order, so
  that the same map is always the same list.\<close>

fun values_append :: "values \<Rightarrow> string \<Rightarrow> string \<Rightarrow> values" where
  "values_append [] k v = [(k, [v])]"
| "values_append ((k', xs) # rest) k v =
     (if k' = k then (k', xs @ [v]) # rest
      else if k < k' then (k, [v]) # (k', xs) # rest
      else (k', xs) # values_append rest k v)"

definition first_error :: "error option \<Rightarrow> error \<Rightarrow> error option" where
  "first_error err e = (case err of None \<Rightarrow> Some e | Some e0 \<Rightarrow> Some e0)"

text \<open>One round of the loop of \<open>url.ParseQuery\<close>, on the segment before the next \<open>&\<close>.\<close>

definition parse_segment :: "values \<times> error option \<Rightarrow> string \<Rightarrow> values \<times> error option" where
  "parse_segment acc seg =
     (case acc of
        (m, err) \<Rightarrow>
          if CHR '';'' \<in> set seg
          then (m, Some (Err ''invalid semicolon separator in query''))
          else if seg = [] then (m, err)
          else (case cut CHR ''='' seg of
                  (k, v) \<Rightarrow>
                    (case unescape True k of
                       None \<Rightarrow> (m, first_error err (Err ''invalid URL escape''))
                     | Some k' \<Rightarrow>
                        (case unescape True v of
                           None \<Rightarrow> (m, first_error err (Err ''invalid URL escape''))
                         | Some v' \<Rightarrow> (values_append m k' v', err)))))"

definition ref_ParseQuery :: "string \<Rightarrow> values \<times> error option" where
  "ref_ParseQuery query = foldl parse_segment ([], None) (split_on CHR ''&'' query [])"

definition istoken :: "char \<Rightarrow> bool" where
  "istoken c =
     (let n = (of_char c :: nat)
      in 33 \<le> n \<and> n \<le> 126 \<and>
         n \<notin> set [34, 40, 41, 44, 47, 58, 59, 60, 61, 62, 63, 64, 91, 92, 93, 123, 125])"

definition islower :: "char \<Rightarrow> bool" where
  "islower c = (97 \<le> (of_char c :: nat) \<and> (of_char c :: nat) \<le> 122)"

definition ishostchar :: "char \<Rightarrow> bool" where
  "ishostchar c =
     (let n = (of_char c :: nat)
      in (97 \<le> n \<and> n \<le> 122) \<or> (65 \<le> n \<and> n \<le> 90) \<or> (48 \<le> n \<and> n \<le> 57)
         \<or> c = CHR ''-'' \<or> c = CHR ''.'')"

definition isctl :: "char \<Rightarrow> bool" where
  "isctl c = ((of_char c :: nat) < 32 \<or> (of_char c :: nat) = 127)"

definition ref_url_Parse :: "string \<Rightarrow> error + url" where
  "ref_url_Parse rawurl =
     (case cut CHR ''#'' rawurl of
        (u, frag) \<Rightarrow>
          if list_ex isctl u then Inl (Err ''net/url: invalid control character in URL'')
          else (case cut CHR '':'' u of
                  (scheme, rest) \<Rightarrow>
                    if scheme = [] then Inl (Err ''missing protocol scheme'')
                    else if list_all islower scheme \<and> CHR '':'' \<in> set u then
                      (case cut CHR ''?'' rest of
                         (hier, query) \<Rightarrow>
                           if take 2 hier = ''//'' then
                             (let authority = takeWhile (\<lambda>x. x \<noteq> CHR ''/'') (drop 2 hier);
                                  p = dropWhile (\<lambda>x. x \<noteq> CHR ''/'') (drop 2 hier)
                              in if list_all ishostchar authority then
                                   (case unescape False p of
                                      None \<Rightarrow> Inl (Err ''invalid URL escape'')
                                    | Some p' \<Rightarrow>
                                       (case unescape False frag of
                                          None \<Rightarrow> Inl (Err ''invalid URL escape'')
                                        | Some frag' \<Rightarrow>
                                           Inr \<lparr>Scheme = scheme, Opaque = [],
                                                Host = authority, Path = p',
                                                RawQuery = query, Fragment = frag'\<rparr>))
                                 else Inl (Err ''host outside the reference parser''))
                           else Inl (Err ''URL outside the reference parser''))
                    else Inl (Err ''URL outside the reference parser'')))"

definition ref_NewRequest :: "string \<Rightarrow> string \<Rightarrow> body \<Rightarrow> error + http_Request" where
  "ref_NewRequest method rawurl b =
     (let method = (if method = [] then ''GET'' else method)
      in if list_all istoken method then
           (case ref_url_Parse rawurl of
              Inl e \<Rightarrow> Inl e
            | Inr u \<Rightarrow>
               Inr \<lparr>Method = method, URL = u, Header = Map.empty, Body = b,
                    RequestHost = Host u, Form = [], PostForm = [],
                    MultipartForm = None\<rparr>)
         else Inl (Err ''net/http: invalid method''))"

text \<open>The text an OAuth 1.0 signature covers: method, URL and the sorted parameters of the
  form, shown with the credentials instead of being hashed with them.\<close>

definition ref_authorizationHeader ::
  "Client \<Rightarrow> Credentials option \<Rightarrow> string \<Rightarrow> url \<Rightarrow> values \<Rightarrow> error + string" where
  "ref_authorizationHeader cl creds method u form =
     Inr (''OAuth oauth_consumer_key='' @ QueryEscape (Token (Credentials cl))
          @ '', oauth_signature='' @ QueryEscape (Secret (Credentials cl))
          @ ''&'' @ method
          @ ''&'' @ QueryEscape (Scheme u @ ''://'' @ Host u
                                 @ (if Opaque u = [] then Path u else Opaque u))
          @ ''&'' @ QueryEscape (RawQuery u)
          @ ''&'' @ QueryEscape (Encode form))"

definition ref_Do :: "http_Request \<Rightarrow> error + http_Response" where
  "ref_Do req =
     (if Host (URL req) = ''unreachable.invalid'' then Inl (Err ''dial tcp: no such host'')
      else Inr \<lparr>StatusCode = 200, ResponseBody = [Data ''[1, '', Data ''2]'']\<rparr>)"

definition ref_Open :: "string \<Rightarrow> error + reader" where
  "ref_Open name =
     (if name = ''/tmp/upload/notes.txt'' then Inr [Data ''first line'', Data ''second line'']
      else Inl (Err ''open: no such file or directory''))"

text \<open>\<open>Header.Get\<close>: the first value of the key, or the empty string.\<close>

definition Header_Get :: "header \<Rightarrow> string \<Rightarrow> string" where
  "Header_Get h k =
     (case h k of
        None \<Rightarrow> []
      | Some vs \<Rightarrow> (case vs of [] \<Rightarrow> [] | v # _ \<Rightarrow> v))"

text \<open>The media type of a \<open>Content-Type\<close> value, and its boundary when the value has the form
  that \<open>FormDataContentType\<close> produces.\<close>

definition media_type :: "string \<Rightarrow> string" where
  "media_type ct = takeWhile (\<lambda>x. x \<noteq> CHR '';'') ct"

definition boundary_of :: "string \<Rightarrow> string option" where
  "boundary_of ct =
     (let p = ''multipart/form-data; boundary=''
      in if take (length p) ct = p then Some (drop (length p) ct) else None)"

text \<open>The bytes \<open>multipart.Writer\<close> has put into the buffer for the parts and the closing
  line: what a reader of the body gets.\<close>

definition CRLF :: string where
  "CRLF = [CHR 0x0D, CHR 0x0A]"

definition escapeQuotes :: "string \<Rightarrow> string" where
  "escapeQuotes s =
     concat (map (\<lambda>c. if c = CHR 0x5C then [CHR 0x5C, CHR 0x5C]
                       else if c = CHR 0x22 then [CHR 0x5C, CHR 0x22]
                       else [c]) s)"

fun part_text :: "part \<Rightarrow> string" where
  "part_text (FormFile n f content) =
     ''Content-Disposition: form-data; name='' @ [CHR 0x22] @ escapeQuotes n @ [CHR 0x22]
     @ ''; filename='' @ [CHR 0x22] @ escapeQuotes f @ [CHR 0x22] @ CRLF
     @ ''Content-Type: application/octet-stream'' @ CRLF @ CRLF @ content"
| "part_text (FormField n v) =
     ''Content-Disposition: form-data; name='' @ [CHR 0x22] @ escapeQuotes n @ [CHR 0x22]
     @ CRLF @ CRLF @ v"

fun parts_text :: "string \<Rightarrow> part list \<Rightarrow> string" where
  "parts_text b [] = []"
| "parts_text b (p # ps) = CRLF @ ''--'' @ b @ CRLF @ part_text p @ parts_text b ps"

definition multipart_text :: "string \<Rightarrow> part list \<Rightarrow> string" where
  "multipart_text b parts = drop 2 (parts_text b parts) @ CRLF @ ''--'' @ b @ ''--'' @ CRLF"

definition body_text :: "body \<Rightarrow> string" where
  "body_text b =
     (case b of
        NoBody \<Rightarrow> []
      | Stream r \<Rightarrow> fst (ReadAll r)
      | Multipart bd parts \<Rightarrow> multipart_text bd parts)"

text \<open>\<open>copyValues\<close> of \<open>net/http\<close>, and the \<open>Value\<close> map of a parsed multipart form.\<close>

definition copyValues :: "values \<Rightarrow> values \<Rightarrow> values" where
  "copyValues dst src =
     foldl (\<lambda>d kv. foldl (\<lambda>d' v. values_append d' (fst kv) v) d (snd kv)) dst src"

definition field_values :: "part list \<Rightarrow> values" where
  "field_values parts =
     foldl (\<lambda>m p. case p of FormField k v \<Rightarrow> values_append m k v | FormFile n f content \<Rightarrow> m)
       [] parts"

text \<open>
  \<open>Request.ParseForm\<close>, which \<open>ParseMultipartForm\<close> calls when \<open>Form\<close> is nil. With no
  \<open>PostForm\<close> yet, a method POST, PUT or PATCH and the form \<open>Content-Type\<close>, it reads the
  whole body and parses it as form data; the body is then at its end, \<open>Stream []\<close>. \<open>Form\<close>
  becomes \<open>PostForm\<close> and the parameters of the URL's query.
\<close>

definition ref_ParseForm :: "http_Request \<Rightarrow> body \<times> values \<times> values" where
  "ref_ParseForm r =
     (let reads = (PostForm r = [] \<and> Method r \<in> set [''POST'', ''PUT'', ''PATCH'']
                   \<and> Body r \<noteq> NoBody
                   \<and> media_type (Header_Get (Header r) ''Content-Type'')
                       = ''application/x-www-form-urlencoded'');
          postForm = (if reads then fst (ref_ParseQuery (body_text (Body r))) else PostForm r);
          b = (if reads then Stream [] else Body r)
      in (b, copyValues (copyValues [] postForm) (fst (ref_ParseQuery (RawQuery (URL r)))),
          postForm))"

text \<open>
  \<open>Request.ParseMultipartForm\<close>. After \<open>ParseForm\<close>, and unless \<open>MultipartForm\<close> is already
  there: when the \<open>Content-Type\<close> of the request is \<open>multipart/form-data\<close> with a boundary, a
  multipart reader for that boundary reads the body to its end. It finds the parts when
  the body was written with that boundary, and no part otherwise; in both cases nothing of
  the body is left to send. With any other \<open>Content-Type\<close>, or none, the body is not read.
\<close>

definition ref_ParseMultipartForm ::
  "http_Request \<Rightarrow> nat \<Rightarrow> body \<times> values \<times> values \<times> part list option" where
  "ref_ParseMultipartForm r maxMemory =
     (case (if Form r = [] then ref_ParseForm r else (Body r, Form r, PostForm r)) of
        (b, form, postForm) \<Rightarrow>
          (case MultipartForm r of
             Some mf \<Rightarrow> (b, form, postForm, Some mf)
           | None \<Rightarrow>
              (case boundary_of (Header_Get (Header r) ''Content-Type'') of
                 None \<Rightarrow> (b, form, postForm, None)
               | Some bd \<Rightarrow>
                  (case b of
                     NoBody \<Rightarrow> (NoBody, form, postForm, None)
                   | Stream rd \<Rightarrow> (Stream [], form, postForm, None)
                   | Multipart bd' parts \<Rightarrow>
                       if bd' = bd
                       then (Stream [], copyValues form (field_values parts),
                             copyValues postForm (field_values parts), Some parts)
                       else (Stream [], form, postForm, None)))))"

definition ref_env :: env where
  "ref_env =
     \<lparr>apiHost = ''api.context.io'',
      http_NewRequest = ref_NewRequest,
      url_ParseQuery = ref_ParseQuery,
      oauth_authorizationHeader = ref_authorizationHeader,
      http_DefaultClient_Do = ref_Do,
      os_Open = ref_Open,
      randomBoundary = ''5f3a9c0d7e1b'',
      http_ParseMultipartForm = ref_ParseMultipartForm\<rparr>"

text \<open>The same environment with the flag set to a host that does not answer.\<close>

definition offline_env :: env where
  "offline_env = ref_env\<lparr>apiHost := ''unreachable.invalid''\<rparr>"

text \<open>A signed POST request, as \<open>NewRequest\<close> of \<^verbatim>\<open>part_001\<close> returns it in the reference
  environment, to which its caller has added two form fields.\<close>

definition example_signed :: http_Request where
  "example_signed =
     (Request (fst (projr (fst (NewRequest ref_env (NewContextIO ''k'' ''s'') ''POST''
        ''/2.0/accounts'' [] [])))))\<lparr>PostForm := [(''subject'', [''hello'']),
                                                  (''tag'', [''a'', ''b''])]\<rparr>"

text \<open>That request after a first \<open>AttachFile\<close>, for which the writer drew another boundary.\<close>

definition example_attached :: http_Request where
  "example_attached =
     projr (fst (AttachFile (ref_env\<lparr>randomBoundary := ''0a1b2c3d4e5f''\<rparr>)
                   (NewContextIO ''k'' ''s'') example_signed ''file'' ''/tmp/upload/notes.txt''))"

section \<open>Basic facts\<close>

lemma slash_prefix_Nil: "slash_prefix [] = Inl (Panic SliceBoundsOutOfRange)"
  by (simp add: slash_prefix_def go_slice_def)

lemma slash_prefix_Cons:
  "slash_prefix (x # xs) = Inr (if x = CHR ''/'' then x # xs else CHR ''/'' # x # xs)"
  by (simp add: slash_prefix_def go_slice_def)

lemma slash_prefix_missing:
  assumes "p \<noteq> []" and "hd p \<noteq> CHR ''/''"
  shows "slash_prefix p = Inr (''/'' @ p)" and "slash_prefix (''/'' @ p) = Inr (''/'' @ p)"
  using assms by (cases p; simp add: slash_prefix_Cons)+

lemma ReadAll_Data: "ReadAll (map Data ds) = (concat ds, None)"
  by (induction ds) simp_all

lemma ReadAll_Fail: "ReadAll (map Data ds @ Fail e # rest) = (concat ds, Some e)"
  by (induction ds) simp_all

lemma returned_collapse: "\<not> isl (fst x) \<Longrightarrow> x = (Inr (projr (fst x)), snd x)"
  by (cases x; cases "fst x"; simp)

lemma failed_collapse: "isl (fst x) \<Longrightarrow> x = (Inl (projl (fst x)), snd x)"
  by (cases x; cases "fst x"; simp)

subsection \<open>The reference environment on the examples\<close>

lemma ref_env_simps:
  "apiHost ref_env = ''api.context.io''"
  "http_NewRequest ref_env = ref_NewRequest"
  "url_ParseQuery ref_env = ref_ParseQuery"
  "oauth_authorizationHeader ref_env = ref_authorizationHeader"
  "http_DefaultClient_Do ref_env = ref_Do"
  "os_Open ref_env = ref_Open"
  "randomBoundary ref_env = ''5f3a9c0d7e1b''"
  "http_ParseMultipartForm ref_env = ref_ParseMultipartForm"
  by (simp_all add: ref_env_def)

lemmas ref_parse_defs = ref_NewRequest_def ref_url_Parse_def cut_def istoken_def islower_def
  ishostchar_def isctl_def ref_ParseQuery_def parse_segment_def first_error_def ishex_def

lemmas ref_sign_defs = ref_authorizationHeader_def NewContextIO_def Encode_def lookup_values_def
  unreserved_def upperhex_def SetAuthorizationHeader_def Header_Set_def

lemma ref_NewRequest_accounts:
  "ref_NewRequest ''POST'' ''https://api.context.io/2.0/accounts'' b
   = Inr \<lparr>Method = ''POST'',
          URL = \<lparr>Scheme = ''https'', Opaque = [], Host = ''api.context.io'',
                 Path = ''/2.0/accounts'', RawQuery = [], Fragment = []\<rparr>,
          Header = Map.empty, Body = b, RequestHost = ''api.context.io'',
          Form = [], PostForm = [], MultipartForm = None\<rparr>"
  "ref_NewRequest ''GET'' ''https://api.context.io/2.0/accounts'' b
   = Inr \<lparr>Method = ''GET'',
          URL = \<lparr>Scheme = ''https'', Opaque = [], Host = ''api.context.io'',
                 Path = ''/2.0/accounts'', RawQuery = [], Fragment = []\<rparr>,
          Header = Map.empty, Body = b, RequestHost = ''api.context.io'',
          Form = [], PostForm = [], MultipartForm = None\<rparr>"
  "ref_NewRequest ''GET'' ''https://api.context.io/2.0/accounts?limit=1'' b
   = Inr \<lparr>Method = ''GET'',
          URL = \<lparr>Scheme = ''https'', Opaque = [], Host = ''api.context.io'',
                 Path = ''/2.0/accounts'', RawQuery = ''limit=1'', Fragment = []\<rparr>,
          Header = Map.empty, Body = b, RequestHost = ''api.context.io'',
          Form = [], PostForm = [], MultipartForm = None\<rparr>"
  by (simp_all add: ref_parse_defs)

lemma ref_ParseQuery_examples:
  "ref_ParseQuery ''a=1&b=2'' = ([(''a'', [''1'']), (''b'', [''2''])], None)"
  "ref_ParseQuery ''b=2&a=1'' = ([(''a'', [''1'']), (''b'', [''2''])], None)"
  "ref_ParseQuery ''a=%zz'' = ([], Some (Err ''invalid URL escape''))"
  "ref_ParseQuery [] = ([], None)"
  by (simp_all add: ref_parse_defs)

lemma Encode_limit: "Encode [(''limit'', [''1''])] = ''limit=1''"
  by (simp add: Encode_def lookup_values_def unreserved_def)

lemma offline_env_simps:
  "apiHost offline_env = ''unreachable.invalid''"
  "http_NewRequest offline_env = ref_NewRequest"
  "url_ParseQuery offline_env = ref_ParseQuery"
  "oauth_authorizationHeader offline_env = ref_authorizationHeader"
  "http_DefaultClient_Do offline_env = ref_Do"
  by (simp_all add: offline_env_def ref_env_def)

lemma ref_NewRequest_offline:
  "ref_NewRequest ''GET'' ''https://unreachable.invalid/2.0/accounts'' b
   = Inr \<lparr>Method = ''GET'',
          URL = \<lparr>Scheme = ''https'', Opaque = [], Host = ''unreachable.invalid'',
                 Path = ''/2.0/accounts'', RawQuery = [], Fragment = []\<rparr>,
          Header = Map.empty, Body = b, RequestHost = ''unreachable.invalid'',
          Form = [], PostForm = [], MultipartForm = None\<rparr>"
  by (simp add: ref_parse_defs)

lemma char_of_64: "char_of (64 :: nat) = CHR ''@''"
  by code_simp

lemma ref_NewRequest_escaped:
  "ref_NewRequest ''GET'' ''https://api.context.io/2.0/a%40b'' b
   = Inr \<lparr>Method = ''GET'',
          URL = \<lparr>Scheme = ''https'', Opaque = [], Host = ''api.context.io'',
                 Path = ''/2.0/a@b'', RawQuery = [], Fragment = []\<rparr>,
          Header = Map.empty, Body = b, RequestHost = ''api.context.io'',
          Form = [], PostForm = [], MultipartForm = None\<rparr>"
  "ref_NewRequest ''GET'' ''https://api.context.io/2.0/a%40b?limit=1'' b
   = Inr \<lparr>Method = ''GET'',
          URL = \<lparr>Scheme = ''https'', Opaque = [], Host = ''api.context.io'',
                 Path = ''/2.0/a@b'', RawQuery = ''limit=1'', Fragment = []\<rparr>,
          Header = Map.empty, Body = b, RequestHost = ''api.context.io'',
          Form = [], PostForm = [], MultipartForm = None\<rparr>"
  by (simp_all add: ref_parse_defs unhex_def char_of_64)

lemma ref_NewRequest_rejected:
  "ref_NewRequest ''POST'' ''https://api.context.io/2.0/a%zz'' b = Inl (Err ''invalid URL escape'')"
  by (simp add: ref_parse_defs)

lemma ref_NewRequest_question_mark:
  "ref_NewRequest ''GET'' ''https://api.context.io/2.0/a?x=1'' b
   = Inr \<lparr>Method = ''GET'',
          URL = \<lparr>Scheme = ''https'', Opaque = [], Host = ''api.context.io'',
                 Path = ''/2.0/a'', RawQuery = ''x=1'', Fragment = []\<rparr>,
          Header = Map.empty, Body = b, RequestHost = ''api.context.io'',
          Form = [], PostForm = [], MultipartForm = None\<rparr>"
  by (simp add: ref_parse_defs)

lemma fst_collapse: "fst x = a \<Longrightarrow> x = (a, snd x)"
  by (cases x) simp

lemmas run_defs = prepare_part000_def Do_part000_def prepare_contextIO_def Do_contextIO_def
  NewRequest_def Sign_def SetUserAgent_def Do_part001_def slash_prefix_Cons mutating_def
  ref_Do_def

lemma example_signed_eq:
  "example_signed
   = \<lparr>Method = ''POST'',
      URL = \<lparr>Scheme = ''https'', Opaque = ''/2.0/accounts'', Host = ''api.context.io'',
             Path = ''/2.0/accounts'', RawQuery = [], Fragment = []\<rparr>,
      Header = [''User-Agent'' \<mapsto> [''GoContextIO Simple Library v. 0.1''],
                ''Authorization'' \<mapsto> [''OAuth oauth_consumer_key=k, oauth_signature=s&POST&https%3A%2F%2Fapi.context.io%2F2.0%2Faccounts&&'']],
      Body = NoBody, RequestHost = ''api.context.io'', Form = [],
      PostForm = [(''subject'', [''hello'']), (''tag'', [''a'', ''b''])],
      MultipartForm = None\<rparr>"
  by (simp add: example_signed_def run_defs ref_env_simps ref_NewRequest_accounts ref_sign_defs)

lemma ref_Open_notes:
  "os_Open ref_env ''/tmp/upload/notes.txt'' = Inr [Data ''first line'', Data ''second line'']"
  by (simp add: ref_env_simps ref_Open_def)

section \<open>The empty path\<close>

text \<open>
  C10. \<open>Do\<close> of \<^verbatim>\<open>contextIO.go\<close> and \<open>NewRequest\<close> of \<^verbatim>\<open>part_001\<close> start with \<open>q[0:1]\<close>. On the
  empty path that slice is out of bounds: the call panics before anything is built, signed
  or sent, whatever the other arguments are, and so do \<open>Do\<close> and \<open>DoJSON\<close> on top of it.
  On every other path the step succeeds, so a non-empty path is exactly what it requires.
\<close>

theorem empty_path_panics:
  "slash_prefix [] = Inl (Panic SliceBoundsOutOfRange)
   \<and> slash_prefix (x # xs) = Inr (if x = CHR ''/'' then x # xs else CHR ''/'' # x # xs)
   \<and> prepare_contextIO E c method [] params body = (Inl (Panic SliceBoundsOutOfRange), [])
   \<and> Do_contextIO E c method [] params body = (Inl (Panic SliceBoundsOutOfRange), [])
   \<and> DoJSON_contextIO E c method [] params body = (Inl (Panic SliceBoundsOutOfRange), [])
   \<and> NewRequest E c method [] queryParams postParams = (Inl (Panic SliceBoundsOutOfRange), [])
   \<and> Do_part001 E c method [] queryParams postParams = (Inl (Panic SliceBoundsOutOfRange), [])
   \<and> DoJSON_part001 E c method [] queryParams postParams body
       = (Inl (Panic SliceBoundsOutOfRange), [])"
  by (simp add: prepare_contextIO_def Do_contextIO_def DoJSON_contextIO_def NewRequest_def
        Do_part001_def DoJSON_part001_def slash_prefix_Nil slash_prefix_Cons)

section \<open>\<open>DoJSON\<close>\<close>

lemma DoJSON_part000_cases:
  "Do_part000 E c m q ps b = (Inl e, t) \<Longrightarrow> DoJSON_part000 E c m q ps b = (Inl e, t)"
  "Do_part000 E c m q ps b = (Inr r, t) \<Longrightarrow>
   DoJSON_part000 E c m q ps b = (Inr (ReadAll (ResponseBody r)), t @ [ResponseBodyClosed])"
  by (simp_all add: DoJSON_part000_def)

lemma DoJSON_contextIO_cases:
  "Do_contextIO E c m q ps body = (Inl e, t) \<Longrightarrow> DoJSON_contextIO E c m q ps body = (Inl e, t)"
  "Do_contextIO E c m q ps body = (Inr r, t) \<Longrightarrow>
   DoJSON_contextIO E c m q ps body
     = (Inr (ReadAll (ResponseBody r)), t @ [ResponseBodyClosed])"
  by (simp_all add: DoJSON_contextIO_def)

lemma DoJSON_part001_cases:
  "Do_part001 E c m q qp pp = (Inl e, t) \<Longrightarrow> DoJSON_part001 E c m q qp pp body = (Inl e, t)"
  "Do_part001 E c m q qp pp = (Inr r, t) \<Longrightarrow>
   DoJSON_part001 E c m q qp pp body
     = (Inr (ReadAll (ResponseBody r)), t @ [ResponseBodyClosed])"
  by (simp_all add: DoJSON_part001_def)

text \<open>
  C9. In each of the three versions: when \<open>Do\<close> fails with \<open>e\<close>, \<open>DoJSON\<close> returns \<open>e\<close> and
  no bytes, with nothing else done; when \<open>Do\<close> returns a response, \<open>DoJSON\<close> returns what
  \<open>ReadAll\<close> makes of its body and closes the body. \<open>ReadAll\<close> gives all the bytes and no
  error when every read succeeds, and the error of the first read that fails otherwise.
\<close>

theorem DoJSON_result:
  "(Do_part000 E c m q ps b = (Inl e, t) \<longrightarrow> DoJSON_part000 E c m q ps b = (Inl e, t))
   \<and> (Do_part000 E c m q ps b = (Inr r, t) \<longrightarrow>
        DoJSON_part000 E c m q ps b = (Inr (ReadAll (ResponseBody r)), t @ [ResponseBodyClosed]))
   \<and> (Do_contextIO E c m q ps body = (Inl e, t) \<longrightarrow>
        DoJSON_contextIO E c m q ps body = (Inl e, t))
   \<and> (Do_contextIO E c m q ps body = (Inr r, t) \<longrightarrow>
        DoJSON_contextIO E c m q ps body
          = (Inr (ReadAll (ResponseBody r)), t @ [ResponseBodyClosed]))
   \<and> (Do_part001 E c m q qp pp = (Inl e, t) \<longrightarrow>
        DoJSON_part001 E c m q qp pp body = (Inl e, t))
   \<and> (Do_part001 E c m q qp pp = (Inr r, t) \<longrightarrow>
        DoJSON_part001 E c m q qp pp body
          = (Inr (ReadAll (ResponseBody r)), t @ [ResponseBodyClosed]))
   \<and> ReadAll (map Data ds) = (concat ds, None)
   \<and> ReadAll (map Data ds @ Fail e' # rest) = (concat ds, Some e')"
  by (simp add: DoJSON_part000_cases DoJSON_contextIO_cases DoJSON_part001_cases
      ReadAll_Data ReadAll_Fail)

theorem DoJSON_result_witness:
  "fst (Do_part000 ref_env (NewContextIO ''k'' ''s'') ''GET'' ''/2.0/accounts'' [] (Stream []))
     = Inr \<lparr>StatusCode = 200, ResponseBody = [Data ''[1, '', Data ''2]'']\<rparr>
   \<and> fst (DoJSON_part000 ref_env (NewContextIO ''k'' ''s'') ''GET'' ''/2.0/accounts'' [] (Stream []))
     = Inr (''[1, 2]'', None)
   \<and> fst (Do_part000 offline_env (NewContextIO ''k'' ''s'') ''GET'' ''/2.0/accounts'' [] (Stream []))
     = Inl (Err ''dial tcp: no such host'')
   \<and> fst (DoJSON_part000 offline_env (NewContextIO ''k'' ''s'') ''GET'' ''/2.0/accounts'' [] (Stream []))
     = Inl (Err ''dial tcp: no such host'')
   \<and> fst (Do_contextIO ref_env (NewContextIO ''k'' ''s'') ''POST'' ''/2.0/accounts'' []
            (Some ''a=1&b=2''))
     = Inr \<lparr>StatusCode = 200, ResponseBody = [Data ''[1, '', Data ''2]'']\<rparr>
   \<and> fst (DoJSON_contextIO ref_env (NewContextIO ''k'' ''s'') ''POST'' ''/2.0/accounts'' []
            (Some ''a=1&b=2''))
     = Inr (''[1, 2]'', None)
   \<and> fst (Do_contextIO ref_env (NewContextIO ''k'' ''s'') ''POST'' ''/2.0/accounts'' []
            (Some ''a=%zz''))
     = Inl (Err ''invalid URL escape'')
   \<and> fst (DoJSON_contextIO ref_env (NewContextIO ''k'' ''s'') ''POST'' ''/2.0/accounts'' []
            (Some ''a=%zz''))
     = Inl (Err ''invalid URL escape'')
   \<and> fst (Do_part001 ref_env (NewContextIO ''k'' ''s'') ''GET'' ''/2.0/accounts'' [] [])
     = Inr \<lparr>StatusCode = 200, ResponseBody = [Data ''[1, '', Data ''2]'']\<rparr>
   \<and> fst (DoJSON_part001 ref_env (NewContextIO ''k'' ''s'') ''GET'' ''/2.0/accounts'' [] [] None)
     = Inr (''[1, 2]'', None)
   \<and> fst (Do_part001 offline_env (NewContextIO ''k'' ''s'') ''GET'' ''/2.0/accounts'' [] [])
     = Inl (Err ''dial tcp: no such host'')
   \<and> fst (DoJSON_part001 offline_env (NewContextIO ''k'' ''s'') ''GET'' ''/2.0/accounts'' [] []
            None)
     = Inl (Err ''dial tcp: no such host'')"
proof -
  let ?K = "NewContextIO ''k'' ''s''"
  let ?ok = "\<lparr>StatusCode = 200, ResponseBody = [Data ''[1, '', Data ''2]'']\<rparr>"
  have a1: "fst (Do_part000 ref_env ?K ''GET'' ''/2.0/accounts'' [] (Stream [])) = Inr ?ok"
    by (simp add: run_defs ref_env_simps ref_sign_defs)
  have a2: "fst (Do_part000 offline_env ?K ''GET'' ''/2.0/accounts'' [] (Stream []))
              = Inl (Err ''dial tcp: no such host'')"
    by (simp add: run_defs offline_env_simps ref_sign_defs)
  have b1: "fst (Do_contextIO ref_env ?K ''POST'' ''/2.0/accounts'' [] (Some ''a=1&b=2''))
              = Inr ?ok"
    by (simp add: run_defs ref_env_simps ref_NewRequest_accounts ref_ParseQuery_examples
        ref_sign_defs)
  have b2: "fst (Do_contextIO ref_env ?K ''POST'' ''/2.0/accounts'' [] (Some ''a=%zz''))
              = Inl (Err ''invalid URL escape'')"
    by (simp add: run_defs ref_env_simps ref_NewRequest_accounts ref_ParseQuery_examples
        ref_sign_defs)
  have c1: "fst (Do_part001 ref_env ?K ''GET'' ''/2.0/accounts'' [] []) = Inr ?ok"
    by (simp add: run_defs ref_env_simps ref_NewRequest_accounts ref_sign_defs)
  have c2: "fst (Do_part001 offline_env ?K ''GET'' ''/2.0/accounts'' [] [])
              = Inl (Err ''dial tcp: no such host'')"
    by (simp add: run_defs offline_env_simps ref_NewRequest_offline ref_sign_defs)
  note split = DoJSON_result [THEN conjunct1, THEN mp]
    DoJSON_result [THEN conjunct2, THEN conjunct1, THEN mp]
    DoJSON_result [THEN conjunct2, THEN conjunct2, THEN conjunct1, THEN mp]
    DoJSON_result [THEN conjunct2, THEN conjunct2, THEN conjunct2, THEN conjunct1, THEN mp]
    DoJSON_result [THEN conjunct2, THEN conjunct2, THEN conjunct2, THEN conjunct2,
      THEN conjunct1, THEN mp]
    DoJSON_result [THEN conjunct2, THEN conjunct2, THEN conjunct2, THEN conjunct2,
      THEN conjunct2, THEN conjunct1, THEN mp]
  have "fst (DoJSON_part000 ref_env ?K ''GET'' ''/2.0/accounts'' [] (Stream []))
          = Inr (''[1, 2]'', None)"
    using split(2) [OF fst_collapse [OF a1]] by simp
  moreover have "fst (DoJSON_part000 offline_env ?K ''GET'' ''/2.0/accounts'' [] (Stream []))
          = Inl (Err ''dial tcp: no such host'')"
    using split(1) [OF fst_collapse [OF a2]] by simp
  moreover have "fst (DoJSON_contextIO ref_env ?K ''POST'' ''/2.0/accounts'' []
                        (Some ''a=1&b=2'')) = Inr (''[1, 2]'', None)"
    using split(4) [OF fst_collapse [OF b1]] by simp
  moreover have "fst (DoJSON_contextIO ref_env ?K ''POST'' ''/2.0/accounts'' []
                        (Some ''a=%zz'')) = Inl (Err ''invalid URL escape'')"
    using split(3) [OF fst_collapse [OF b2]] by simp
  moreover have "fst (DoJSON_part001 ref_env ?K ''GET'' ''/2.0/accounts'' [] [] None)
          = Inr (''[1, 2]'', None)"
    using split(6) [OF fst_collapse [OF c1]] by simp
  moreover have "fst (DoJSON_part001 offline_env ?K ''GET'' ''/2.0/accounts'' [] [] None)
          = Inl (Err ''dial tcp: no such host'')"
    using split(5) [OF fst_collapse [OF c2]] by simp
  ultimately show ?thesis using a1 a2 b1 b2 c1 c2 by simp
qed

section \<open>The malformed body\<close>

text \<open>
  C4, as the code has it. \<open>Do\<close> of \<^verbatim>\<open>contextIO.go\<close>, on a call with method PUT, POST or
  DELETE whose path is not empty and for which \<open>http.NewRequest\<close> has returned a request:
  when \<open>url.ParseQuery\<close> rejects the body with the error \<open>e\<close>, \<open>Do\<close> returns exactly \<open>e\<close>, and
  so does \<open>DoJSON\<close>. No signature has been computed and no request has been sent: the list
  of events is empty.
\<close>

theorem malformed_body_error_returned:
  assumes "mutating method"
    and "slash_prefix q = Inr q'"
    and "http_NewRequest E method (''https://'' @ apiHost E @ q') (Stream [Data b]) = Inr req0"
    and "url_ParseQuery E b = (v, Some e)"
  shows "prepare_contextIO E c method q params (Some b) = (Inl e, [])
         \<and> Do_contextIO E c method q params (Some b) = (Inl e, [])
         \<and> DoJSON_contextIO E c method q params (Some b) = (Inl e, [])"
  using assms
  by (simp add: prepare_contextIO_def Do_contextIO_def DoJSON_contextIO_def Let_def)

theorem malformed_body_error_returned_witness:
  "mutating ''POST''
   \<and> slash_prefix ''2.0/accounts'' = Inr ''/2.0/accounts''
   \<and> url_ParseQuery ref_env ''a=%zz'' = ([], Some (Err ''invalid URL escape''))
   \<and> Do_contextIO ref_env (NewContextIO ''k'' ''s'') ''POST'' ''2.0/accounts'' []
        (Some ''a=%zz'') = (Inl (Err ''invalid URL escape''), [])
   \<and> DoJSON_contextIO ref_env (NewContextIO ''k'' ''s'') ''POST'' ''2.0/accounts'' []
        (Some ''a=%zz'') = (Inl (Err ''invalid URL escape''), [])"
proof -
  have h1: "mutating ''POST''"
    by (simp add: mutating_def)
  have h2: "slash_prefix ''2.0/accounts'' = Inr ''/2.0/accounts''"
    by (simp add: slash_prefix_Cons)
  have h3: "http_NewRequest ref_env ''POST'' (''https://'' @ apiHost ref_env @ ''/2.0/accounts'')
              (Stream [Data ''a=%zz''])
            = Inr \<lparr>Method = ''POST'',
                   URL = \<lparr>Scheme = ''https'', Opaque = [], Host = ''api.context.io'',
                          Path = ''/2.0/accounts'', RawQuery = [], Fragment = []\<rparr>,
                   Header = Map.empty, Body = Stream [Data ''a=%zz''],
                   RequestHost = ''api.context.io'',
                   Form = [], PostForm = [], MultipartForm = None\<rparr>"
    by (simp add: ref_env_simps ref_NewRequest_accounts)
  have h4: "url_ParseQuery ref_env ''a=%zz'' = ([], Some (Err ''invalid URL escape''))"
    by (simp add: ref_env_simps ref_ParseQuery_examples)
  from malformed_body_error_returned [OF h1 h2 h3 h4] h1 h2 h4 show ?thesis
    by blast
qed

text \<open>
  C4, as it is written, speaks of every request with a malformed body. Two POST calls with
  the body \<open>a=%zz\<close>, which \<open>url.ParseQuery\<close> rejects, do not return that error. On the empty
  path \<open>q[0:1]\<close> panics. On the path \<open>/2.0/a%zz\<close> \<open>http.NewRequest\<close> rejects the URL; \<open>Do\<close> has
  discarded that error, \<open>req\<close> is nil, and \<open>req.URL.Opaque = q\<close> panics. Both happen before the
  body is parsed.
\<close>

theorem malformed_body_panics_first:
  "mutating ''POST''
   \<and> url_ParseQuery ref_env ''a=%zz'' = ([], Some (Err ''invalid URL escape''))
   \<and> Do_contextIO ref_env (NewContextIO ''k'' ''s'') ''POST'' [] [] (Some ''a=%zz'')
     = (Inl (Panic SliceBoundsOutOfRange), [])
   \<and> http_NewRequest ref_env ''POST'' (''https://'' @ apiHost ref_env @ ''/2.0/a%zz'')
        (Stream [Data ''a=%zz'']) = Inl (Err ''invalid URL escape'')
   \<and> Do_contextIO ref_env (NewContextIO ''k'' ''s'') ''POST'' ''/2.0/a%zz'' [] (Some ''a=%zz'')
     = (Inl (Panic NilPointerDereference), [])
   \<and> Panic SliceBoundsOutOfRange \<noteq> Err ''invalid URL escape''
   \<and> Panic NilPointerDereference \<noteq> Err ''invalid URL escape''"
  by (simp add: run_defs slash_prefix_Nil ref_env_simps ref_NewRequest_rejected
      ref_ParseQuery_examples)

section \<open>The leading slash\<close>

text \<open>
  C2, as the code has it. For a non-empty path \<open>p\<close> that does not begin with \<open>/\<close>, \<open>Do\<close> of
  \<^verbatim>\<open>contextIO.go\<close> and \<open>NewRequest\<close> and \<open>Do\<close> of \<^verbatim>\<open>part_001\<close> give the same result for \<open>p\<close> and
  for \<open>/\<close> followed by \<open>p\<close>, all other arguments being the same: the same signed request,
  the same events, the same response.
\<close>

theorem leading_slash_added:
  assumes "p \<noteq> []" and "hd p \<noteq> CHR ''/''"
  shows "prepare_contextIO E c method p params body
           = prepare_contextIO E c method (''/'' @ p) params body
         \<and> Do_contextIO E c method p params body
           = Do_contextIO E c method (''/'' @ p) params body
         \<and> NewRequest E c method p queryParams postParams
           = NewRequest E c method (''/'' @ p) queryParams postParams
         \<and> Do_part001 E c method p queryParams postParams
           = Do_part001 E c method (''/'' @ p) queryParams postParams"
  unfolding prepare_contextIO_def Do_contextIO_def NewRequest_def Do_part001_def
    slash_prefix_missing [OF assms]
  by simp

theorem leading_slash_added_witness:
  "''2.0/accounts'' \<noteq> [] \<and> hd ''2.0/accounts'' \<noteq> CHR ''/''
   \<and> prepare_contextIO ref_env (NewContextIO ''k'' ''s'') ''POST'' ''2.0/accounts'' []
        (Some ''a=1&b=2'')
     = prepare_contextIO ref_env (NewContextIO ''k'' ''s'') ''POST'' ''/2.0/accounts'' []
        (Some ''a=1&b=2'')
   \<and> NewRequest ref_env (NewContextIO ''k'' ''s'') ''GET'' ''2.0/accounts'' [] []
     = NewRequest ref_env (NewContextIO ''k'' ''s'') ''GET'' ''/2.0/accounts'' [] []
   \<and> Opaque (URL (projr (fst (prepare_contextIO ref_env (NewContextIO ''k'' ''s'') ''POST''
        ''2.0/accounts'' [] (Some ''a=1&b=2''))))) = ''/2.0/accounts''"
proof -
  have h1: "''2.0/accounts'' \<noteq> []" by simp
  have h2: "hd ''2.0/accounts'' \<noteq> CHR ''/''" by simp
  have v: "Opaque (URL (projr (fst (prepare_contextIO ref_env (NewContextIO ''k'' ''s'') ''POST''
        ''2.0/accounts'' [] (Some ''a=1&b=2''))))) = ''/2.0/accounts''"
    by (simp add: run_defs ref_env_simps ref_NewRequest_accounts ref_ParseQuery_examples
        ref_sign_defs)
  from leading_slash_added [OF h1 h2, of ref_env "NewContextIO ''k'' ''s''" "''POST''" "[]"
      "Some ''a=1&b=2''"]
    leading_slash_added [OF h1 h2, of ref_env "NewContextIO ''k'' ''s''" "''GET''" _ _ "[]" "[]"]
    h1 h2 v
  show ?thesis by simp
qed

text \<open>
  C2, as it is written, covers \<open>Do\<close> of \<^verbatim>\<open>part_000\<close> too. That version has no such step: the
  path goes into \<open>URL.Opaque\<close> as it is given, and the two requests differ.
\<close>

theorem part000_path_not_normalized:
  "''2.0/accounts'' \<noteq> [] \<and> hd ''2.0/accounts'' \<noteq> CHR ''/''
   \<and> \<not> isl (fst (prepare_part000 ref_env (NewContextIO ''k'' ''s'') ''GET'' ''2.0/accounts'' []
              NoBody))
   \<and> \<not> isl (fst (prepare_part000 ref_env (NewContextIO ''k'' ''s'') ''GET''
              (''/'' @ ''2.0/accounts'') [] NoBody))
   \<and> Opaque (URL (projr (fst (prepare_part000 ref_env (NewContextIO ''k'' ''s'') ''GET''
        ''2.0/accounts'' [] NoBody)))) = ''2.0/accounts''
   \<and> Opaque (URL (projr (fst (prepare_part000 ref_env (NewContextIO ''k'' ''s'') ''GET''
        (''/'' @ ''2.0/accounts'') [] NoBody)))) = ''/2.0/accounts''
   \<and> prepare_part000 ref_env (NewContextIO ''k'' ''s'') ''GET'' ''2.0/accounts'' [] NoBody
     \<noteq> prepare_part000 ref_env (NewContextIO ''k'' ''s'') ''GET'' (''/'' @ ''2.0/accounts'') []
        NoBody"
  by (simp add: run_defs ref_env_simps ref_sign_defs)

section \<open>The target URL\<close>

lemma prepare_part000_url:
  assumes "prepare_part000 E c method q params b = (Inr r, t)"
  shows "URL r = \<lparr>Scheme = ''https'', Opaque = q, Host = apiHost E, Path = [],
                  RawQuery = Encode params, Fragment = []\<rparr> \<and> RequestHost r = apiHost E"
  using assms
  by (auto simp: prepare_part000_def SetAuthorizationHeader_def Let_def split: sum.splits)

lemma prepare_contextIO_url:
  assumes "prepare_contextIO E c method q params body = (Inr r, t)"
  shows "\<exists>q' b req0. slash_prefix q = Inr q' \<and> body = Some b
           \<and> http_NewRequest E method (''https://'' @ apiHost E @ q') (Stream [Data b]) = Inr req0
           \<and> URL r = (URL req0)\<lparr>Opaque := q'\<rparr>"
  using assms
  by (auto simp: prepare_contextIO_def SetAuthorizationHeader_def Let_def
      split: sum.splits option.splits if_splits prod.splits)

lemma NewRequest_url:
  assumes "NewRequest E c method q queryParams postParams = (Inr (r, err), t)"
  shows "\<exists>q' req0. slash_prefix q = Inr q'
           \<and> http_NewRequest E method
                (''https://'' @ apiHost E @ q'
                  @ (if queryParams = [] then [] else ''?'' @ Encode queryParams)) NoBody
               = Inr req0
           \<and> URL (Request r) = (URL req0)\<lparr>Opaque := q'\<rparr> \<and> Query r = q'"
  using assms
  by (auto simp: NewRequest_def Sign_def SetUserAgent_def SetAuthorizationHeader_def Let_def
      split: sum.splits option.splits if_splits prod.splits)

text \<open>
  C7, as the code has it. For a request that has been built:
  \<^item> in \<^verbatim>\<open>part_000\<close> the URL has the scheme \<open>https\<close>, the host \<open>apiHost\<close> and the path, as it was
    given and without a slash added, in \<open>Opaque\<close>;
  \<^item> in \<^verbatim>\<open>contextIO.go\<close> the URL is the one \<open>http.NewRequest\<close> returns for the text \<open>https://\<close>,
    \<open>apiHost\<close>, path, and \<open>Opaque\<close> is then set to the path, byte for byte;
  \<^item> in \<^verbatim>\<open>part_001\<close> likewise, the text being followed by \<open>?\<close> and the encoded query
    parameters when there are some.
  In the last two the path is the one with its leading slash. How the text splits into
  host, path, query and fragment is left to \<open>http.NewRequest\<close>.
\<close>

theorem target_url_opaque_path:
  "(prepare_part000 E c method q params b = (Inr r, t) \<longrightarrow>
      URL r = \<lparr>Scheme = ''https'', Opaque = q, Host = apiHost E, Path = [],
               RawQuery = Encode params, Fragment = []\<rparr> \<and> RequestHost r = apiHost E)
   \<and> (prepare_contextIO E c method q params body = (Inr r, t) \<longrightarrow>
        (\<exists>q' b' req0. slash_prefix q = Inr q' \<and> body = Some b'
           \<and> http_NewRequest E method (''https://'' @ apiHost E @ q') (Stream [Data b'])
               = Inr req0
           \<and> URL r = (URL req0)\<lparr>Opaque := q'\<rparr>))
   \<and> (NewRequest E c method q queryParams postParams = (Inr (wrapped, err), t) \<longrightarrow>
        (\<exists>q' req0. slash_prefix q = Inr q'
           \<and> http_NewRequest E method
                (''https://'' @ apiHost E @ q'
                  @ (if queryParams = [] then [] else ''?'' @ Encode queryParams)) NoBody
               = Inr req0
           \<and> URL (Request wrapped) = (URL req0)\<lparr>Opaque := q'\<rparr> \<and> Query wrapped = q'))"
  by (intro conjI; rule impI; erule prepare_part000_url prepare_contextIO_url NewRequest_url)

theorem target_url_opaque_path_witness:
  "URL (projr (fst (prepare_part000 ref_env (NewContextIO ''k'' ''s'') ''GET'' ''2.0/a%40b'' []
          NoBody)))
     = \<lparr>Scheme = ''https'', Opaque = ''2.0/a%40b'', Host = ''api.context.io'', Path = [],
        RawQuery = [], Fragment = []\<rparr>
   \<and> URL (projr (fst (prepare_contextIO ref_env (NewContextIO ''k'' ''s'') ''GET'' ''2.0/a%40b''
          [] (Some []))))
     = \<lparr>Scheme = ''https'', Opaque = ''/2.0/a%40b'', Host = ''api.context.io'',
        Path = ''/2.0/a@b'', RawQuery = [], Fragment = []\<rparr>
   \<and> URL (Request (fst (projr (fst (NewRequest ref_env (NewContextIO ''k'' ''s'') ''GET''
          ''2.0/a%40b'' [(''limit'', [''1''])] [])))))
     = \<lparr>Scheme = ''https'', Opaque = ''/2.0/a%40b'', Host = ''api.context.io'',
        Path = ''/2.0/a@b'', RawQuery = ''limit=1'', Fragment = []\<rparr>"
proof -
  let ?K = "NewContextIO ''k'' ''s''"
  let ?x = "prepare_part000 ref_env ?K ''GET'' ''2.0/a%40b'' [] NoBody"
  let ?y = "prepare_contextIO ref_env ?K ''GET'' ''2.0/a%40b'' [] (Some [])"
  let ?z = "NewRequest ref_env ?K ''GET'' ''2.0/a%40b'' [(''limit'', [''1''])] []"
  have x: "?x = (Inr (projr (fst ?x)), snd ?x)"
    by (rule returned_collapse) (simp add: run_defs ref_env_simps ref_sign_defs)
  have y: "?y = (Inr (projr (fst ?y)), snd ?y)"
    by (rule returned_collapse)
      (simp add: run_defs ref_env_simps ref_NewRequest_escaped ref_sign_defs)
  have "\<not> isl (fst ?z)"
    by (simp add: run_defs ref_env_simps ref_NewRequest_escaped Encode_limit ref_sign_defs)
  then have z: "?z = (Inr (fst (projr (fst ?z)), snd (projr (fst ?z))), snd ?z)"
    using returned_collapse by fastforce
  have "URL (projr (fst ?x))
     = \<lparr>Scheme = ''https'', Opaque = ''2.0/a%40b'', Host = ''api.context.io'', Path = [],
        RawQuery = [], Fragment = []\<rparr>"
    using target_url_opaque_path [THEN conjunct1, THEN mp, OF x]
    by (simp add: ref_env_simps Encode_def)
  moreover have "URL (projr (fst ?y))
     = \<lparr>Scheme = ''https'', Opaque = ''/2.0/a%40b'', Host = ''api.context.io'',
        Path = ''/2.0/a@b'', RawQuery = [], Fragment = []\<rparr>"
    using target_url_opaque_path [THEN conjunct2, THEN conjunct1, THEN mp, OF y]
    by (auto simp: slash_prefix_Cons ref_env_simps ref_NewRequest_escaped)
  moreover have "URL (Request (fst (projr (fst ?z))))
     = \<lparr>Scheme = ''https'', Opaque = ''/2.0/a%40b'', Host = ''api.context.io'',
        Path = ''/2.0/a@b'', RawQuery = ''limit=1'', Fragment = []\<rparr>"
    using target_url_opaque_path [THEN conjunct2, THEN conjunct2, THEN mp, OF z]
    by (auto simp: slash_prefix_Cons ref_env_simps ref_NewRequest_escaped Encode_limit)
  ultimately show ?thesis by simp
qed

text \<open>
  C7, as it is written, has the path with its leading slash in \<open>Opaque\<close> for every built
  request, and the target exactly host and path. \<open>Do\<close> of \<^verbatim>\<open>part_000\<close> on the path
  \<open>2.0/accounts\<close> builds a request whose \<open>Opaque\<close> is \<open>2.0/accounts\<close>, not \<open>/2.0/accounts\<close>. \<open>Do\<close> of
  \<^verbatim>\<open>contextIO.go\<close> on the path \<open>/2.0/a?x=1\<close> builds a request whose URL has the path \<open>/2.0/a\<close>
  and the query \<open>x=1\<close> beside the \<open>Opaque\<close> \<open>/2.0/a?x=1\<close>.
\<close>

theorem opaque_path_as_given:
  "slash_prefix ''2.0/accounts'' = Inr ''/2.0/accounts''
   \<and> \<not> isl (fst (prepare_part000 ref_env (NewContextIO ''k'' ''s'') ''GET'' ''2.0/accounts'' []
              NoBody))
   \<and> URL (projr (fst (prepare_part000 ref_env (NewContextIO ''k'' ''s'') ''GET''
        ''2.0/accounts'' [] NoBody)))
     = \<lparr>Scheme = ''https'', Opaque = ''2.0/accounts'', Host = ''api.context.io'', Path = [],
        RawQuery = [], Fragment = []\<rparr>
   \<and> Opaque (URL (projr (fst (prepare_part000 ref_env (NewContextIO ''k'' ''s'') ''GET''
        ''2.0/accounts'' [] NoBody)))) \<noteq> ''/2.0/accounts''
   \<and> \<not> isl (fst (prepare_contextIO ref_env (NewContextIO ''k'' ''s'') ''GET'' ''/2.0/a?x=1'' []
              (Some [])))
   \<and> URL (projr (fst (prepare_contextIO ref_env (NewContextIO ''k'' ''s'') ''GET''
        ''/2.0/a?x=1'' [] (Some []))))
     = \<lparr>Scheme = ''https'', Opaque = ''/2.0/a?x=1'', Host = ''api.context.io'',
        Path = ''/2.0/a'', RawQuery = ''x=1'', Fragment = []\<rparr>"
  by (simp add: run_defs ref_env_simps ref_NewRequest_question_mark ref_sign_defs Encode_def)

section \<open>The content type\<close>

lemma prepare_contextIO_content_type:
  assumes "mutating method" and "prepare_contextIO E c method q params body = (Inr r, t)"
  shows "Header r ''Content-Type'' = Some [''application/x-www-form-urlencoded'']"
  using assms
  by (auto simp: prepare_contextIO_def SetAuthorizationHeader_def Header_Set_def Let_def
      split: sum.splits option.splits if_splits prod.splits)

lemma NewRequest_content_type:
  assumes "NewRequest E c method q queryParams postParams = (Inr (r, err), t)"
  shows "\<exists>q' req0. slash_prefix q = Inr q'
           \<and> http_NewRequest E method
                (''https://'' @ apiHost E @ q'
                  @ (if queryParams = [] then [] else ''?'' @ Encode queryParams)) NoBody
               = Inr req0
           \<and> Header (Request r) ''Content-Type'' = Header req0 ''Content-Type''"
  using assms
  by (auto simp: NewRequest_def Sign_def SetUserAgent_def SetAuthorizationHeader_def Let_def
      Header_Set_def split: sum.splits option.splits if_splits prod.splits)

lemma write_vals_written:
  "write_vals w k vs = Inr (w\<lparr>written := written w @ map (FormField k) vs\<rparr>)"
  by (induction vs arbitrary: w) (simp_all add: WriteField_def)

lemma write_form_written:
  "write_form w form
   = Inr (w\<lparr>written := written w @ concat (map (\<lambda>(k, vs). map (FormField k) vs) form)\<rparr>)"
  by (induction form arbitrary: w) (auto simp: write_vals_written)

text \<open>\<open>AttachFile\<close> in one step, once the file has been opened.\<close>

lemma AttachFile_opened:
  assumes "os_Open E fileName = Inr f"
  shows "AttachFile E c req fieldName fileName =
     (case http_ParseMultipartForm E
             (req\<lparr>Body := Multipart (randomBoundary E)
                (FormFile fieldName (filepath_Base fileName) (fst (ReadAll f))
                 # concat (map (\<lambda>(k, vs). map (FormField k) vs) (PostForm req)))\<rparr>)
             defaultMaxMemory of
        (b', f', pf, mf) \<Rightarrow>
          (Inr (req\<lparr>Body := b', Form := f', PostForm := pf, MultipartForm := mf,
                    Header := (Header req)(''Content-Type'' \<mapsto>
                       [''multipart/form-data; boundary='' @ randomBoundary E])\<rparr>),
           [FileOpened fileName]))"
  using assms
  by (simp add: AttachFile_def CreateFormFile_def NewWriter_def io_Copy_def Close_def
      write_form_written FormDataContentType_def Header_Set_def Let_def split: prod.splits)

lemma AttachFile_not_opened:
  assumes "os_Open E fileName = Inl e"
  shows "AttachFile E c req fieldName fileName = (Inl e, [FileOpened fileName])"
  using assms by (simp add: AttachFile_def)

lemma AttachFile_content_type:
  assumes "AttachFile E c req fieldName fileName = (Inr r, t)"
  shows "Header r ''Content-Type''
         = Some [''multipart/form-data; boundary='' @ randomBoundary E]"
proof (cases "os_Open E fileName")
  case (Inl e)
  then show ?thesis using assms by (simp add: AttachFile_not_opened)
next
  case (Inr f)
  show ?thesis using assms by (auto simp: AttachFile_opened [OF Inr] split: prod.splits)
qed

text \<open>
  C8, as the code has it. A request with method PUT, POST or DELETE built by \<open>Do\<close> of
  \<^verbatim>\<open>contextIO.go\<close> has the \<open>Content-Type\<close> \<open>application/x-www-form-urlencoded\<close>. \<open>NewRequest\<close> of
  \<^verbatim>\<open>part_001\<close> leaves \<open>Content-Type\<close> as \<open>http.NewRequest\<close> returned it, and a successful
  \<open>AttachFile\<close> sets it to \<open>multipart/form-data\<close> with the boundary of the new body.
\<close>

theorem content_type_header:
  "(mutating method \<and> prepare_contextIO E c method q params body = (Inr r, t) \<longrightarrow>
      Header r ''Content-Type'' = Some [''application/x-www-form-urlencoded''])
   \<and> (NewRequest E c method q queryParams postParams = (Inr (wrapped, err), t) \<longrightarrow>
        (\<exists>q' req0. slash_prefix q = Inr q'
           \<and> http_NewRequest E method
                (''https://'' @ apiHost E @ q'
                  @ (if queryParams = [] then [] else ''?'' @ Encode queryParams)) NoBody
               = Inr req0
           \<and> Header (Request wrapped) ''Content-Type'' = Header req0 ''Content-Type''))
   \<and> (AttachFile E c req fieldName fileName = (Inr r, t) \<longrightarrow>
        Header r ''Content-Type''
          = Some [''multipart/form-data; boundary='' @ randomBoundary E])"
  by (intro conjI; rule impI;
      (erule NewRequest_content_type AttachFile_content_type
       | (erule conjE, erule prepare_contextIO_content_type, assumption)))

theorem content_type_header_witness:
  "mutating ''POST''
   \<and> Header (projr (fst (prepare_contextIO ref_env (NewContextIO ''k'' ''s'') ''POST''
        ''/2.0/accounts'' [] (Some ''a=1&b=2'')))) ''Content-Type''
     = Some [''application/x-www-form-urlencoded'']
   \<and> Header (Request (fst (projr (fst (NewRequest ref_env (NewContextIO ''k'' ''s'') ''POST''
        ''/2.0/accounts'' [] []))))) ''Content-Type'' = None
   \<and> Header (projr (fst (AttachFile ref_env (NewContextIO ''k'' ''s'')
        (Request (fst (projr (fst (NewRequest ref_env (NewContextIO ''k'' ''s'') ''POST''
           ''/2.0/accounts'' [] [])))))
        ''file'' ''/tmp/upload/notes.txt''))) ''Content-Type''
     = Some [''multipart/form-data; boundary=5f3a9c0d7e1b'']"
proof -
  let ?K = "NewContextIO ''k'' ''s''"
  let ?y = "prepare_contextIO ref_env ?K ''POST'' ''/2.0/accounts'' [] (Some ''a=1&b=2'')"
  let ?z = "NewRequest ref_env ?K ''POST'' ''/2.0/accounts'' [] []"
  let ?a = "AttachFile ref_env ?K (Request (fst (projr (fst ?z)))) ''file''
              ''/tmp/upload/notes.txt''"
  have m: "mutating ''POST''"
    by (simp add: mutating_def)
  have y: "?y = (Inr (projr (fst ?y)), snd ?y)"
    by (rule returned_collapse)
      (simp add: run_defs ref_env_simps ref_NewRequest_accounts ref_ParseQuery_examples
        ref_sign_defs)
  have "\<not> isl (fst ?z)"
    by (simp add: run_defs ref_env_simps ref_NewRequest_accounts ref_sign_defs)
  then have z: "?z = (Inr (fst (projr (fst ?z)), snd (projr (fst ?z))), snd ?z)"
    using returned_collapse by fastforce
  have o: "os_Open ref_env ''/tmp/upload/notes.txt''
             = Inr [Data ''first line'', Data ''second line'']"
    by (simp add: ref_env_simps ref_Open_def)
  have a: "?a = (Inr (projr (fst ?a)), snd ?a)"
    by (rule returned_collapse) (simp add: AttachFile_opened [OF o] split: prod.splits)
  have "Header (projr (fst ?y)) ''Content-Type'' = Some [''application/x-www-form-urlencoded'']"
    using content_type_header [THEN conjunct1, THEN mp, OF conjI [OF m y]] .
  moreover have "Header (Request (fst (projr (fst ?z)))) ''Content-Type'' = None"
    using content_type_header [THEN conjunct2, THEN conjunct1, THEN mp, OF z]
    by (auto simp: slash_prefix_Cons ref_env_simps ref_NewRequest_accounts)
  moreover have "Header (projr (fst ?a)) ''Content-Type''
                   = Some [''multipart/form-data; boundary=5f3a9c0d7e1b'']"
    using content_type_header [THEN conjunct2, THEN conjunct2, THEN mp, OF a]
    by (simp add: ref_env_simps)
  ultimately show ?thesis using m by simp
qed

text \<open>
  C8, as it is written, fails on the only version that has \<open>AttachFile\<close>: a POST request
  from \<open>NewRequest\<close> of \<^verbatim>\<open>part_001\<close> is built and signed, and has no \<open>Content-Type\<close> at all.
\<close>

theorem part001_no_content_type:
  "mutating ''POST''
   \<and> \<not> isl (fst (NewRequest ref_env (NewContextIO ''k'' ''s'') ''POST'' ''/2.0/accounts'' [] []))
   \<and> snd (projr (fst (NewRequest ref_env (NewContextIO ''k'' ''s'') ''POST'' ''/2.0/accounts''
        [] []))) = None
   \<and> Method (Request (fst (projr (fst (NewRequest ref_env (NewContextIO ''k'' ''s'') ''POST''
        ''/2.0/accounts'' [] []))))) = ''POST''
   \<and> Header (Request (fst (projr (fst (NewRequest ref_env (NewContextIO ''k'' ''s'') ''POST''
        ''/2.0/accounts'' [] []))))) ''Content-Type'' = None
   \<and> Header (Request (fst (projr (fst (NewRequest ref_env (NewContextIO ''k'' ''s'') ''POST''
        ''/2.0/accounts'' [] []))))) ''Content-Type''
     \<noteq> Some [''application/x-www-form-urlencoded'']"
  by (simp add: run_defs ref_env_simps ref_NewRequest_accounts ref_sign_defs)

section \<open>What the signature covers\<close>

lemma prepare_contextIO_signed:
  assumes "mutating method" and "prepare_contextIO E c method q params (Some b) = (Inr r, t)"
  shows "\<exists>q' req0 v a. slash_prefix q = Inr q'
           \<and> http_NewRequest E method (''https://'' @ apiHost E @ q') (Stream [Data b]) = Inr req0
           \<and> url_ParseQuery E b = (v, None)
           \<and> oauth_authorizationHeader E (client c) None (Method req0)
                ((URL req0)\<lparr>Opaque := q'\<rparr>) v = Inr a
           \<and> Header r ''Authorization'' = Some [a]
           \<and> t = [SignatureComputed (Method req0) ((URL req0)\<lparr>Opaque := q'\<rparr>) v]"
  using assms
  by (auto simp: prepare_contextIO_def SetAuthorizationHeader_def Header_Set_def Let_def
      split: sum.splits option.splits if_splits prod.splits)

lemma prepare_part000_other_body:
  assumes "prepare_part000 E c method q params b1 = (Inr r, t)"
  shows "prepare_part000 E c method q params b2 = (Inr (r\<lparr>Body := b2\<rparr>), t)"
  using assms
  by (auto simp: prepare_part000_def SetAuthorizationHeader_def Let_def split: sum.splits)

text \<open>\<open>Do\<close> of \<^verbatim>\<open>contextIO.go\<close> never looks at \<open>params\<close>.\<close>

lemma prepare_contextIO_ignores_params:
  "prepare_contextIO E c method q params body = prepare_contextIO E c method q params' body"
  by (simp add: prepare_contextIO_def)

lemma Do_contextIO_ignores_params:
  "Do_contextIO E c method q params body = Do_contextIO E c method q params' body"
  by (simp add: Do_contextIO_def prepare_contextIO_ignores_params [of _ _ _ _ params _ params'])

text \<open>\<open>NewRequest\<close> of \<^verbatim>\<open>part_001\<close> never looks at \<open>postParams\<close>: what \<open>Sign\<close> passes on is the
  \<open>PostForm\<close> of the request that \<open>http.NewRequest\<close> returned.\<close>

lemma NewRequest_ignores_postParams:
  "NewRequest E c method q queryParams postParams
   = NewRequest E c method q queryParams postParams'"
  by (simp add: NewRequest_def)

text \<open>
  C1, as the code has it. \<open>Do\<close> of \<^verbatim>\<open>contextIO.go\<close>, for PUT, POST and DELETE: the body is
  parsed by \<open>url.ParseQuery\<close>, and the \<open>Authorization\<close> header of the request is the value
  that the OAuth library computes from the method and the URL of the request and from the
  parameters parsed from the body; that is the one signature computed. \<open>Do\<close> of \<^verbatim>\<open>part_000\<close>
  gives nothing of the body to the signature: with another body it builds the same request
  but for the body, with the same header, and computes the same signature.
\<close>

theorem body_parameters_signed:
  "(mutating method \<and> prepare_contextIO E c method q params (Some b) = (Inr r, t) \<longrightarrow>
      (\<exists>q' req0 v a. slash_prefix q = Inr q'
         \<and> http_NewRequest E method (''https://'' @ apiHost E @ q') (Stream [Data b]) = Inr req0
         \<and> url_ParseQuery E b = (v, None)
         \<and> oauth_authorizationHeader E (client c) None (Method req0)
              ((URL req0)\<lparr>Opaque := q'\<rparr>) v = Inr a
         \<and> Header r ''Authorization'' = Some [a]
         \<and> t = [SignatureComputed (Method req0) ((URL req0)\<lparr>Opaque := q'\<rparr>) v]))
   \<and> (prepare_part000 E c method q params b1 = (Inr r, t) \<longrightarrow>
        prepare_part000 E c method q params b2 = (Inr (r\<lparr>Body := b2\<rparr>), t))"
  by (intro conjI; rule impI;
      (erule prepare_part000_other_body
       | (erule conjE, erule prepare_contextIO_signed, assumption)))

theorem body_parameters_signed_witness:
  "mutating ''POST''
   \<and> url_ParseQuery ref_env ''a=1&b=2'' = ([(''a'', [''1'']), (''b'', [''2''])], None)
   \<and> Header (projr (fst (prepare_contextIO ref_env (NewContextIO ''k'' ''s'') ''POST''
        ''/2.0/accounts'' [] (Some ''a=1&b=2'')))) ''Authorization''
     = Some [''OAuth oauth_consumer_key=k, oauth_signature=s&POST&https%3A%2F%2Fapi.context.io%2F2.0%2Faccounts&&a%3D1%26b%3D2'']
   \<and> snd (prepare_contextIO ref_env (NewContextIO ''k'' ''s'') ''POST'' ''/2.0/accounts'' []
        (Some ''a=1&b=2''))
     = [SignatureComputed ''POST''
          \<lparr>Scheme = ''https'', Opaque = ''/2.0/accounts'', Host = ''api.context.io'',
           Path = ''/2.0/accounts'', RawQuery = [], Fragment = []\<rparr>
          [(''a'', [''1'']), (''b'', [''2''])]]
   \<and> fst (prepare_part000 ref_env (NewContextIO ''k'' ''s'') ''POST'' ''/2.0/accounts'' []
        (Stream [Data ''a=2'']))
     = Inr ((projr (fst (prepare_part000 ref_env (NewContextIO ''k'' ''s'') ''POST''
              ''/2.0/accounts'' [] (Stream [Data ''a=1'']))))\<lparr>Body := Stream [Data ''a=2'']\<rparr>)"
proof -
  let ?K = "NewContextIO ''k'' ''s''"
  let ?y = "prepare_contextIO ref_env ?K ''POST'' ''/2.0/accounts'' [] (Some ''a=1&b=2'')"
  let ?x = "prepare_part000 ref_env ?K ''POST'' ''/2.0/accounts'' [] (Stream [Data ''a=1''])"
  have m: "mutating ''POST''"
    by (simp add: mutating_def)
  have p: "url_ParseQuery ref_env ''a=1&b=2'' = ([(''a'', [''1'']), (''b'', [''2''])], None)"
    by (simp add: ref_env_simps ref_ParseQuery_examples)
  have y: "?y = (Inr (projr (fst ?y)), snd ?y)"
    by (rule returned_collapse)
      (simp add: run_defs ref_env_simps ref_NewRequest_accounts ref_ParseQuery_examples
        ref_sign_defs)
  have x: "?x = (Inr (projr (fst ?x)), snd ?x)"
    by (rule returned_collapse) (simp add: run_defs ref_env_simps ref_sign_defs)
  have "Header (projr (fst ?y)) ''Authorization''
          = Some [''OAuth oauth_consumer_key=k, oauth_signature=s&POST&https%3A%2F%2Fapi.context.io%2F2.0%2Faccounts&&a%3D1%26b%3D2'']
        \<and> snd ?y = [SignatureComputed ''POST''
          \<lparr>Scheme = ''https'', Opaque = ''/2.0/accounts'', Host = ''api.context.io'',
           Path = ''/2.0/accounts'', RawQuery = [], Fragment = []\<rparr>
          [(''a'', [''1'']), (''b'', [''2''])]]"
    using body_parameters_signed [THEN conjunct1, THEN mp, OF conjI [OF m y]]
    by (auto simp: slash_prefix_Cons ref_env_simps ref_NewRequest_accounts
        ref_ParseQuery_examples ref_sign_defs)
  moreover have "fst (prepare_part000 ref_env ?K ''POST'' ''/2.0/accounts'' []
                        (Stream [Data ''a=2'']))
                 = Inr ((projr (fst ?x))\<lparr>Body := Stream [Data ''a=2'']\<rparr>)"
    using body_parameters_signed [THEN conjunct2, THEN mp, OF x, of "Stream [Data ''a=2'']"]
    by simp
  ultimately show ?thesis using m p by simp
qed

text \<open>
  C1, as it is written, says that two different well-formed bodies give two different
  headers. In \<^verbatim>\<open>contextIO.go\<close> the bodies \<open>a=1&b=2\<close> and \<open>b=2&a=1\<close> are both accepted, parse to
  the same parameters and get the same header. In \<^verbatim>\<open>part_000\<close> the bodies \<open>a=1\<close> and \<open>a=2\<close> get
  the same header, the body having no part in it.
\<close>

theorem different_bodies_same_authorization:
  "mutating ''POST'' \<and> ''a=1&b=2'' \<noteq> ''b=2&a=1''
   \<and> snd (url_ParseQuery ref_env ''a=1&b=2'') = None
   \<and> snd (url_ParseQuery ref_env ''b=2&a=1'') = None
   \<and> \<not> isl (fst (prepare_contextIO ref_env (NewContextIO ''k'' ''s'') ''POST''
              ''/2.0/accounts'' [] (Some ''a=1&b=2'')))
   \<and> \<not> isl (fst (prepare_contextIO ref_env (NewContextIO ''k'' ''s'') ''POST''
              ''/2.0/accounts'' [] (Some ''b=2&a=1'')))
   \<and> Header (projr (fst (prepare_contextIO ref_env (NewContextIO ''k'' ''s'') ''POST''
        ''/2.0/accounts'' [] (Some ''a=1&b=2'')))) ''Authorization''
     = Some [''OAuth oauth_consumer_key=k, oauth_signature=s&POST&https%3A%2F%2Fapi.context.io%2F2.0%2Faccounts&&a%3D1%26b%3D2'']
   \<and> Header (projr (fst (prepare_contextIO ref_env (NewContextIO ''k'' ''s'') ''POST''
        ''/2.0/accounts'' [] (Some ''b=2&a=1'')))) ''Authorization''
     = Some [''OAuth oauth_consumer_key=k, oauth_signature=s&POST&https%3A%2F%2Fapi.context.io%2F2.0%2Faccounts&&a%3D1%26b%3D2'']
   \<and> Stream [Data ''a=1''] \<noteq> Stream [Data ''a=2'']
   \<and> Header (projr (fst (prepare_part000 ref_env (NewContextIO ''k'' ''s'') ''POST''
        ''/2.0/accounts'' [] (Stream [Data ''a=1''])))) ''Authorization''
     = Some [''OAuth oauth_consumer_key=k, oauth_signature=s&POST&https%3A%2F%2Fapi.context.io%2F2.0%2Faccounts&&'']
   \<and> Header (projr (fst (prepare_part000 ref_env (NewContextIO ''k'' ''s'') ''POST''
        ''/2.0/accounts'' [] (Stream [Data ''a=2''])))) ''Authorization''
     = Some [''OAuth oauth_consumer_key=k, oauth_signature=s&POST&https%3A%2F%2Fapi.context.io%2F2.0%2Faccounts&&'']"
  by (simp add: run_defs ref_env_simps ref_NewRequest_accounts ref_ParseQuery_examples
      ref_sign_defs)

section \<open>The query parameters\<close>

text \<open>
  C3. On the call \<open>Do("GET", "/2.0/accounts", {limit: [1]}, "")\<close> the three versions differ:
  \<^verbatim>\<open>part_000\<close> and \<^verbatim>\<open>part_001\<close> build a request whose URL has the query \<open>limit=1\<close>;
  \<^verbatim>\<open>contextIO.go\<close> builds one whose URL has no query, the very request it builds when no
  parameters are given, and sends that.
\<close>

theorem contextIO_drops_query_parameters:
  "RawQuery (URL (projr (fst (prepare_part000 ref_env (NewContextIO ''k'' ''s'') ''GET''
      ''/2.0/accounts'' [(''limit'', [''1''])] NoBody)))) = ''limit=1''
   \<and> RawQuery (URL (Request (fst (projr (fst (NewRequest ref_env (NewContextIO ''k'' ''s'')
      ''GET'' ''/2.0/accounts'' [(''limit'', [''1''])] [])))))) = ''limit=1''
   \<and> \<not> isl (fst (prepare_contextIO ref_env (NewContextIO ''k'' ''s'') ''GET''
      ''/2.0/accounts'' [(''limit'', [''1''])] (Some [])))
   \<and> URL (projr (fst (prepare_contextIO ref_env (NewContextIO ''k'' ''s'') ''GET''
      ''/2.0/accounts'' [(''limit'', [''1''])] (Some []))))
     = \<lparr>Scheme = ''https'', Opaque = ''/2.0/accounts'', Host = ''api.context.io'',
        Path = ''/2.0/accounts'', RawQuery = [], Fragment = []\<rparr>
   \<and> Do_contextIO ref_env (NewContextIO ''k'' ''s'') ''GET'' ''/2.0/accounts''
        [(''limit'', [''1''])] (Some [])
     = Do_contextIO ref_env (NewContextIO ''k'' ''s'') ''GET'' ''/2.0/accounts'' [] (Some [])
   \<and> length (snd (Do_contextIO ref_env (NewContextIO ''k'' ''s'') ''GET'' ''/2.0/accounts''
        [(''limit'', [''1''])] (Some []))) = 2"
  by (simp add: run_defs ref_env_simps ref_NewRequest_accounts ref_ParseQuery_examples
      Encode_limit ref_sign_defs)

section \<open>The attachment\<close>

lemma AttachFile_signer_irrelevant:
  "AttachFile (E\<lparr>oauth_authorizationHeader := other\<rparr>) c req fieldName fileName
   = AttachFile E c req fieldName fileName"
proof (cases "os_Open E fileName")
  case (Inl e)
  then have "os_Open (E\<lparr>oauth_authorizationHeader := other\<rparr>) fileName = Inl e" by simp
  then show ?thesis using Inl by (simp add: AttachFile_not_opened)
next
  case (Inr f)
  then have "os_Open (E\<lparr>oauth_authorizationHeader := other\<rparr>) fileName = Inr f" by simp
  from AttachFile_opened [OF this] AttachFile_opened [OF Inr] show ?thesis by simp
qed

lemma set_form_fields:
  "set (concat (map (\<lambda>(k, vs). map (FormField k) vs) form))
   = {FormField k v |k v. \<exists>vs. (k, vs) \<in> set form \<and> v \<in> set vs}"
  by (induction form) auto

lemma AttachFile_fields_when_body_unread:
  assumes "os_Open E fileName = Inr f" and "ReadAll f = (content, None)"
    and "parts = FormFile fieldName (filepath_Base fileName) content
                 # concat (map (\<lambda>(k, vs). map (FormField k) vs) (PostForm req))"
    and "fst (http_ParseMultipartForm E (req\<lparr>Body := Multipart (randomBoundary E) parts\<rparr>)
                defaultMaxMemory) = Multipart (randomBoundary E) parts"
  shows "\<exists>req'. AttachFile E c req fieldName fileName = (Inr req', [FileOpened fileName])
           \<and> Body req' = Multipart (randomBoundary E) parts
           \<and> set parts = insert (FormFile fieldName (filepath_Base fileName) content)
                            {FormField k v |k v. \<exists>vs. (k, vs) \<in> set (PostForm req) \<and> v \<in> set vs}"
  using assms by (auto simp: AttachFile_opened set_form_fields split: prod.splits)

lemma example_attached_eq:
  "example_attached
   = \<lparr>Method = ''POST'',
      URL = \<lparr>Scheme = ''https'', Opaque = ''/2.0/accounts'', Host = ''api.context.io'',
             Path = ''/2.0/accounts'', RawQuery = [], Fragment = []\<rparr>,
      Header = [''User-Agent'' \<mapsto> [''GoContextIO Simple Library v. 0.1''],
                ''Authorization'' \<mapsto> [''OAuth oauth_consumer_key=k, oauth_signature=s&POST&https%3A%2F%2Fapi.context.io%2F2.0%2Faccounts&&''],
                ''Content-Type'' \<mapsto> [''multipart/form-data; boundary=0a1b2c3d4e5f'']],
      Body = Multipart ''0a1b2c3d4e5f''
               [FormFile ''file'' ''notes.txt'' ''first linesecond line'',
                FormField ''subject'' ''hello'', FormField ''tag'' ''a'', FormField ''tag'' ''b''],
      RequestHost = ''api.context.io'',
      Form = [(''subject'', [''hello'']), (''tag'', [''a'', ''b''])],
      PostForm = [(''subject'', [''hello'']), (''tag'', [''a'', ''b''])],
      MultipartForm = None\<rparr>"
proof -
  have o: "os_Open (ref_env\<lparr>randomBoundary := ''0a1b2c3d4e5f''\<rparr>) ''/tmp/upload/notes.txt''
             = Inr [Data ''first line'', Data ''second line'']"
    by (simp add: ref_env_simps ref_Open_def)
  have b: "filepath_Base ''/tmp/upload/notes.txt'' = ''notes.txt''"
    by (simp add: filepath_Base_def)
  show ?thesis
    unfolding example_attached_def AttachFile_opened [OF o]
    by (simp add: example_signed_eq ref_env_simps b ref_ParseMultipartForm_def ref_ParseForm_def
        Header_Get_def boundary_of_def copyValues_def ref_ParseQuery_examples Let_def)
qed

text \<open>
  C5. \<open>AttachFile\<close> writes the file part and one field for every value of \<open>req.PostForm\<close>
  into the new body, makes it the body of the request, and then calls
  \<open>ParseMultipartForm\<close> on it while the request still has its old \<open>Content-Type\<close>. On
  \<open>example_attached\<close>, a request that has been through \<open>AttachFile\<close> once (its body then
  did hold the file and the three fields), that \<open>Content-Type\<close> is the multipart type with
  the earlier boundary: the parser reads the new body to its end, looking for that
  boundary. The second \<open>AttachFile\<close> returns no error, and the body it leaves has nothing
  left in it: neither the new file nor any of the three fields of the form.
\<close>

theorem AttachFile_again_leaves_empty_body:
  "PostForm example_attached = [(''subject'', [''hello'']), (''tag'', [''a'', ''b''])]
   \<and> Header example_attached ''Content-Type''
     = Some [''multipart/form-data; boundary=0a1b2c3d4e5f'']
   \<and> Body example_attached
     = Multipart ''0a1b2c3d4e5f''
         [FormFile ''file'' ''notes.txt'' ''first linesecond line'',
          FormField ''subject'' ''hello'', FormField ''tag'' ''a'', FormField ''tag'' ''b'']
   \<and> os_Open ref_env ''/tmp/upload/notes.txt'' = Inr [Data ''first line'', Data ''second line'']
   \<and> \<not> isl (fst (AttachFile ref_env (NewContextIO ''k'' ''s'') example_attached ''second''
              ''/tmp/upload/notes.txt''))
   \<and> Body (projr (fst (AttachFile ref_env (NewContextIO ''k'' ''s'') example_attached ''second''
        ''/tmp/upload/notes.txt''))) = Stream []
   \<and> Header (projr (fst (AttachFile ref_env (NewContextIO ''k'' ''s'') example_attached ''second''
        ''/tmp/upload/notes.txt''))) ''Content-Type''
     = Some [''multipart/form-data; boundary=5f3a9c0d7e1b'']"
  unfolding AttachFile_opened [OF ref_Open_notes]
  by (simp add: example_attached_eq ref_env_simps ref_Open_def ref_ParseMultipartForm_def
      Header_Get_def boundary_of_def Let_def)

text \<open>
  C6. A successful \<open>AttachFile\<close> leaves the method, the URL and the host of the request as
  they were, and every header but \<open>Content-Type\<close>, which becomes the multipart type with
  the boundary; the \<open>Authorization\<close> header in particular is the one the request came with.
  The only event is the opening of the file: no signature is computed, and the result is
  the same whatever the OAuth library would compute. (The body and the three form fields of
  the request are what the call may change.)
\<close>

theorem AttachFile_frame:
  assumes "AttachFile E c req fieldName fileName = (Inr req', t)"
  shows "Method req' = Method req \<and> URL req' = URL req \<and> RequestHost req' = RequestHost req
         \<and> Header req' = (Header req)(''Content-Type'' \<mapsto>
                             [''multipart/form-data; boundary='' @ randomBoundary E])
         \<and> Header req' ''Authorization'' = Header req ''Authorization''
         \<and> t = [FileOpened fileName]
         \<and> AttachFile (E\<lparr>oauth_authorizationHeader := other\<rparr>) c req fieldName fileName
             = AttachFile E c req fieldName fileName"
proof (cases "os_Open E fileName")
  case (Inl e)
  then show ?thesis using assms by (simp add: AttachFile_not_opened)
next
  case (Inr f)
  show ?thesis using assms AttachFile_signer_irrelevant [of other E c req fieldName fileName]
    by (auto simp: AttachFile_opened [OF Inr] split: prod.splits)
qed

theorem AttachFile_frame_witness:
  "\<not> isl (fst (AttachFile ref_env (NewContextIO ''k'' ''s'') example_signed ''file''
            ''/tmp/upload/notes.txt''))
   \<and> Header example_signed ''Authorization''
     = Some [''OAuth oauth_consumer_key=k, oauth_signature=s&POST&https%3A%2F%2Fapi.context.io%2F2.0%2Faccounts&&'']
   \<and> Header (projr (fst (AttachFile ref_env (NewContextIO ''k'' ''s'') example_signed ''file''
        ''/tmp/upload/notes.txt''))) ''Authorization''
     = Some [''OAuth oauth_consumer_key=k, oauth_signature=s&POST&https%3A%2F%2Fapi.context.io%2F2.0%2Faccounts&&'']
   \<and> Header (projr (fst (AttachFile ref_env (NewContextIO ''k'' ''s'') example_signed ''file''
        ''/tmp/upload/notes.txt''))) ''Content-Type''
     = Some [''multipart/form-data; boundary=5f3a9c0d7e1b'']
   \<and> Method (projr (fst (AttachFile ref_env (NewContextIO ''k'' ''s'') example_signed ''file''
        ''/tmp/upload/notes.txt''))) = ''POST''
   \<and> URL (projr (fst (AttachFile ref_env (NewContextIO ''k'' ''s'') example_signed ''file''
        ''/tmp/upload/notes.txt'')))
     = \<lparr>Scheme = ''https'', Opaque = ''/2.0/accounts'', Host = ''api.context.io'',
        Path = ''/2.0/accounts'', RawQuery = [], Fragment = []\<rparr>
   \<and> snd (AttachFile ref_env (NewContextIO ''k'' ''s'') example_signed ''file''
        ''/tmp/upload/notes.txt'') = [FileOpened ''/tmp/upload/notes.txt'']"
proof -
  let ?a = "AttachFile ref_env (NewContextIO ''k'' ''s'') example_signed ''file''
              ''/tmp/upload/notes.txt''"
  have ok: "\<not> isl (fst ?a)"
    by (simp add: AttachFile_opened [OF ref_Open_notes] split: prod.splits)
  have a: "?a = (Inr (projr (fst ?a)), snd ?a)"
    using ok by (rule returned_collapse)
  have h: "Header example_signed ''Authorization''
     = Some [''OAuth oauth_consumer_key=k, oauth_signature=s&POST&https%3A%2F%2Fapi.context.io%2F2.0%2Faccounts&&'']"
    by (simp add: example_signed_eq)
  from AttachFile_frame [OF a] ok h show ?thesis
    by (simp add: example_signed_eq ref_env_simps)
qed

end
